theory Spec2Isabelle
  imports Main "HOL-Library.Word"
begin

section \<open>LVDBE\_Process: the per-block routine of the bass enhancement module\<close>

text \<open>
  The development embeds \<^verbatim>\<open>LVDBE_Process\<close> of
  \<^verbatim>\<open>media/libeffects/lvm/lib/Bass/src/LVDBE_Process.cpp\<close>. The routine only
  orchestrates: it checks the block size, decides from the operating mode and from two
  mixer streams which of two signal paths to compute, and hands buffers to collaborators
  (copy, biquad filters, downmix, AGC, two mixers) that the file only calls. The
  collaborators are therefore parameters of the model: arbitrary functions on the memory
  and on the sub-object they are given. What the routine does with them is proved for
  every choice of these functions. Where a statement is about sample values, or about
  where a collaborator writes, it is settled against reference collaborators or under a
  named contract, both modelled from the spec.
\<close>

subsection \<open>Memory, sample values and machine integers\<close>

text \<open>
  Memory is one store of \<^verbatim>\<open>LVM_FLOAT\<close> cells; an address counts cells, so that
  \<^verbatim>\<open>p + n\<close> on a \<^verbatim>\<open>LVM_FLOAT*\<close> is integer addition. The input block, the
  output block and the scratch buffer all live in this store; nothing in the routine
  requires them to be apart, so where a theorem needs it, it says so.

  The routine never computes with samples: it compares two gains with \<^verbatim>\<open>!=\<close> and
  clears buffers with \<^verbatim>\<open>memset\<close>. The sample type is kept abstract (the type
  variable \<open>'f\<close>). The comparison (\<open>float_ne\<close>; on floating-point values it is not
  the negation of identity, a NaN differs from itself) and the value of a cleared cell
  (\<open>float_zero\<close>) are fields of the collaborator record below.
\<close>

text \<open>
  The 16- and 32-bit integers are words. A word carries no sign: \<open>uint\<close> reads it as
  unsigned and \<open>sint\<close> as two's complement, so that the cast of the
  \<^verbatim>\<open>LVM_UINT16\<close> frame count to \<^verbatim>\<open>LVM_INT16\<close> keeps the bits and changes the
  reading, and the cast of a \<^verbatim>\<open>LVM_INT32\<close> to \<^verbatim>\<open>LVM_INT16\<close> keeps the low 16
  bits (\<open>ucast\<close>).
\<close>

type_synonym addr = int
type_synonym 'f heap = "addr \<Rightarrow> 'f"

type_synonym LVM_UINT16 = "16 word"
type_synonym LVM_INT16 = "16 word"
type_synonym LVM_INT32 = "32 word"

subsection \<open>Enumerations\<close>

text \<open>
  Modelled from the spec: the declaration of \<^verbatim>\<open>LVDBE_Mode_en\<close> (in
  \<^verbatim>\<open>LVDBE.h\<close>) is missing. The spec gives the operating mode as one of ON and OFF;
  the routine compares it with \<^verbatim>\<open>LVDBE_ON\<close> and with \<^verbatim>\<open>LVDBE_OFF\<close>.
\<close>

datatype LVDBE_Mode_en = LVDBE_OFF | LVDBE_ON

text \<open>
  Modelled from the spec: the declaration of the type of \<^verbatim>\<open>HPFSelect\<close> is missing.
  The spec gives a high-pass-filter enable flag; the routine compares it with
  \<^verbatim>\<open>LVDBE_HPF_ON\<close>.
\<close>

datatype LVDBE_FilterSelect_en = LVDBE_HPF_OFF | LVDBE_HPF_ON

text \<open>
  Modelled from the spec: the declaration of \<^verbatim>\<open>LVDBE_ReturnStatus_en\<close> is missing.
  The spec gives two status codes, and these are the two the routine returns.
\<close>

datatype LVDBE_ReturnStatus_en = LVDBE_SUCCESS | LVDBE_TOOMANYSAMPLES

subsection \<open>The instance\<close>

text \<open>
  Only the fields the routine reads or passes on are kept. \<open>MaxBlockSize\<close> holds the
  value of the field: the guard compares it with a \<^verbatim>\<open>LVM_UINT16\<close>, and under the
  usual arithmetic conversions that comparison is the comparison of the two values for
  every integer type the field may have. \<open>NrChannels\<close> holds the channel count as the
  routine stores it in its \<^verbatim>\<open>LVM_INT32\<close> local. The two streams of the bypass
  mixer, \<^verbatim>\<open>MixerStream[0]\<close> and \<^verbatim>\<open>MixerStream[1]\<close>, are two fields. The
  states of the filters (\<open>'bq\<close>), of the AGC (\<open>'agc\<close>) and of a mixer stream
  (\<open>'st\<close>) belong to the collaborators and are abstract.
\<close>

record LVDBE_Params_t =
  OperatingMode :: LVDBE_Mode_en
  HPFSelect :: LVDBE_FilterSelect_en
  NrChannels :: LVM_INT32

record LVDBE_Capabilities_t =
  MaxBlockSize :: int

record 'st LVMixer3_2St_FLOAT_st =
  MixerStream0 :: 'st
  MixerStream1 :: 'st

record ('agc, 'st) LVDBE_Data_FLOAT_t =
  AGCInstance :: 'agc
  BypassVolume :: 'st
  BypassMixer :: "'st LVMixer3_2St_FLOAT_st"

record ('bq, 'agc, 'st) LVDBE_Instance_t =
  Capabilities :: LVDBE_Capabilities_t
  Params :: LVDBE_Params_t
  pData :: "('agc, 'st) LVDBE_Data_FLOAT_t"
  pScratch :: addr
  pHPFBiquad :: 'bq
  pBPFBiquad :: 'bq

subsection \<open>Collaborators\<close>

text \<open>
  Each collaborator is a field named after the C function. It receives the arguments of
  the call site as the routine computes them, the sub-object it is given a pointer to, and
  the memory; it returns the sub-object and the memory as it leaves them. Counts keep the
  type they have at the call site: \<^verbatim>\<open>(LVM_INT16)\<close> casts give 16-bit words, the
  frame count of \<^verbatim>\<open>BiquadFilter::process\<close> is the value of \<open>NrFrames\<close>, and the AGC
  receives \<open>NrFrames\<close> and \<open>NrChannels\<close> uncast.
\<close>

record ('f, 'bq, 'agc, 'st) collaborators =
  float_zero :: 'f
  float_ne :: "'f \<Rightarrow> 'f \<Rightarrow> bool"
  LVC_Mixer_GetCurrent :: "'st \<Rightarrow> 'f"
  LVC_Mixer_GetTarget :: "'st \<Rightarrow> 'f"
  Copy_Float :: "addr \<Rightarrow> addr \<Rightarrow> LVM_INT16 \<Rightarrow> 'f heap \<Rightarrow> 'f heap"
  BiquadFilter_process :: "'bq \<Rightarrow> addr \<Rightarrow> addr \<Rightarrow> nat \<Rightarrow> 'f heap \<Rightarrow> 'bq \<times> 'f heap"
  FromMcToMono_Float :: "addr \<Rightarrow> addr \<Rightarrow> LVM_INT16 \<Rightarrow> LVM_INT16 \<Rightarrow> 'f heap \<Rightarrow> 'f heap"
  AGC_MIX_VOL_Mc1Mon_D32_WRA ::
    "'agc \<Rightarrow> addr \<Rightarrow> addr \<Rightarrow> addr \<Rightarrow> LVM_UINT16 \<Rightarrow> LVM_INT32 \<Rightarrow> 'f heap \<Rightarrow> 'agc \<times> 'f heap"
  LVC_MixSoft_Mc_D16C31_SAT ::
    "'st \<Rightarrow> addr \<Rightarrow> addr \<Rightarrow> LVM_INT16 \<Rightarrow> LVM_INT16 \<Rightarrow> 'f heap \<Rightarrow> 'st \<times> 'f heap"
  LVC_MixSoft_2Mc_D16C31_SAT ::
    "'st LVMixer3_2St_FLOAT_st \<Rightarrow> addr \<Rightarrow> addr \<Rightarrow> addr \<Rightarrow> LVM_INT16 \<Rightarrow> LVM_INT16 \<Rightarrow> 'f heap
      \<Rightarrow> 'st LVMixer3_2St_FLOAT_st \<times> 'f heap"

subsection \<open>The machine state and the record of invocations\<close>

text \<open>
  A machine state is the instance, the memory and the sequence of invocations made so
  far. The sequence is what makes "is computed", "is invoked" and "in this order"
  statements about a run: every call of a collaborator and every \<^verbatim>\<open>memset\<close> appends
  its entry, with the pointers and counts it was given.
\<close>

datatype call =
  Call_Copy_Float addr addr LVM_INT16
| Call_HPF_process addr addr nat
| Call_FromMcToMono_Float addr addr LVM_INT16 LVM_INT16
| Call_BPF_process addr addr nat
| Call_AGC_MIX_VOL addr addr addr LVM_UINT16 LVM_INT32
| Call_memset addr LVM_INT32
| Call_LVC_MixSoft_Mc addr addr LVM_INT16 LVM_INT16
| Call_LVC_MixSoft_2Mc addr addr addr LVM_INT16 LVM_INT16

record ('f, 'bq, 'agc, 'st) machine =
  inst :: "('bq, 'agc, 'st) LVDBE_Instance_t"
  heap :: "'f heap"
  calls :: "call list"

definition log_call ::
  "call \<Rightarrow> ('f, 'bq, 'agc, 'st) machine \<Rightarrow> ('f, 'bq, 'agc, 'st) machine" where
  "log_call c m = m\<lparr>calls := calls m @ [c]\<rparr>"

subsection \<open>memset\<close>

text \<open>
  \<^verbatim>\<open>memset(p, 0, sizeof(*p) * NrSamples)\<close> clears whole cells. The byte count is a
  \<^verbatim>\<open>size_t\<close>: \<open>NrSamples\<close> is converted to it and multiplied by the cell size 4,
  modulo \<open>2 ^ 64\<close> on the 64-bit targets. For \<open>0 \<le> NrSamples\<close> this clears
  \<open>NrSamples\<close> cells; a negative \<open>NrSamples\<close> would wrap to an enormous count.
\<close>

definition memset_cells :: "LVM_INT32 \<Rightarrow> int" where
  "memset_cells NrSamples = ((4 * sint NrSamples) mod 2 ^ 64) div 4"

definition memset_zero :: "'f \<Rightarrow> addr \<Rightarrow> int \<Rightarrow> 'f heap \<Rightarrow> 'f heap" where
  "memset_zero z p n h = (\<lambda>a. if p \<le> a \<and> a < p + n then z else h a)"

subsection \<open>Call sites\<close>

definition call_Copy_Float ::
  "('f, 'bq, 'agc, 'st) collaborators \<Rightarrow> addr \<Rightarrow> addr \<Rightarrow> LVM_INT16
    \<Rightarrow> ('f, 'bq, 'agc, 'st) machine \<Rightarrow> ('f, 'bq, 'agc, 'st) machine" where
  "call_Copy_Float env src dst n m =
     log_call (Call_Copy_Float src dst n) (m\<lparr>heap := Copy_Float env src dst n (heap m)\<rparr>)"

definition call_HPF_process ::
  "('f, 'bq, 'agc, 'st) collaborators \<Rightarrow> addr \<Rightarrow> addr \<Rightarrow> nat
    \<Rightarrow> ('f, 'bq, 'agc, 'st) machine \<Rightarrow> ('f, 'bq, 'agc, 'st) machine" where
  "call_HPF_process env src dst n m =
     (case BiquadFilter_process env (pHPFBiquad (inst m)) src dst n (heap m) of
        (bq, h) \<Rightarrow>
          log_call (Call_HPF_process src dst n)
            (m\<lparr>inst := (inst m)\<lparr>pHPFBiquad := bq\<rparr>, heap := h\<rparr>))"

definition call_BPF_process ::
  "('f, 'bq, 'agc, 'st) collaborators \<Rightarrow> addr \<Rightarrow> addr \<Rightarrow> nat
    \<Rightarrow> ('f, 'bq, 'agc, 'st) machine \<Rightarrow> ('f, 'bq, 'agc, 'st) machine" where
  "call_BPF_process env src dst n m =
     (case BiquadFilter_process env (pBPFBiquad (inst m)) src dst n (heap m) of
        (bq, h) \<Rightarrow>
          log_call (Call_BPF_process src dst n)
            (m\<lparr>inst := (inst m)\<lparr>pBPFBiquad := bq\<rparr>, heap := h\<rparr>))"

definition call_FromMcToMono_Float ::
  "('f, 'bq, 'agc, 'st) collaborators \<Rightarrow> addr \<Rightarrow> addr \<Rightarrow> LVM_INT16 \<Rightarrow> LVM_INT16
    \<Rightarrow> ('f, 'bq, 'agc, 'st) machine \<Rightarrow> ('f, 'bq, 'agc, 'st) machine" where
  "call_FromMcToMono_Float env src dst frames channels m =
     log_call (Call_FromMcToMono_Float src dst frames channels)
       (m\<lparr>heap := FromMcToMono_Float env src dst frames channels (heap m)\<rparr>)"

definition call_AGC_MIX_VOL ::
  "('f, 'bq, 'agc, 'st) collaborators \<Rightarrow> addr \<Rightarrow> addr \<Rightarrow> addr \<Rightarrow> LVM_UINT16 \<Rightarrow> LVM_INT32
    \<Rightarrow> ('f, 'bq, 'agc, 'st) machine \<Rightarrow> ('f, 'bq, 'agc, 'st) machine" where
  "call_AGC_MIX_VOL env src monoSrc dst frames channels m =
     (case AGC_MIX_VOL_Mc1Mon_D32_WRA env (AGCInstance (pData (inst m)))
             src monoSrc dst frames channels (heap m) of
        (agc, h) \<Rightarrow>
          log_call (Call_AGC_MIX_VOL src monoSrc dst frames channels)
            (m\<lparr>inst := (inst m)\<lparr>pData := (pData (inst m))\<lparr>AGCInstance := agc\<rparr>\<rparr>, heap := h\<rparr>))"

definition call_memset ::
  "('f, 'bq, 'agc, 'st) collaborators \<Rightarrow> addr \<Rightarrow> LVM_INT32
    \<Rightarrow> ('f, 'bq, 'agc, 'st) machine \<Rightarrow> ('f, 'bq, 'agc, 'st) machine" where
  "call_memset env p NrSamples m =
     log_call (Call_memset p NrSamples)
       (m\<lparr>heap := memset_zero (float_zero env) p (memset_cells NrSamples) (heap m)\<rparr>)"

definition call_LVC_MixSoft_Mc ::
  "('f, 'bq, 'agc, 'st) collaborators \<Rightarrow> addr \<Rightarrow> addr \<Rightarrow> LVM_INT16 \<Rightarrow> LVM_INT16
    \<Rightarrow> ('f, 'bq, 'agc, 'st) machine \<Rightarrow> ('f, 'bq, 'agc, 'st) machine" where
  "call_LVC_MixSoft_Mc env src dst frames channels m =
     (case LVC_MixSoft_Mc_D16C31_SAT env (BypassVolume (pData (inst m)))
             src dst frames channels (heap m) of
        (st, h) \<Rightarrow>
          log_call (Call_LVC_MixSoft_Mc src dst frames channels)
            (m\<lparr>inst := (inst m)\<lparr>pData := (pData (inst m))\<lparr>BypassVolume := st\<rparr>\<rparr>, heap := h\<rparr>))"

definition call_LVC_MixSoft_2Mc ::
  "('f, 'bq, 'agc, 'st) collaborators \<Rightarrow> addr \<Rightarrow> addr \<Rightarrow> addr \<Rightarrow> LVM_INT16 \<Rightarrow> LVM_INT16
    \<Rightarrow> ('f, 'bq, 'agc, 'st) machine \<Rightarrow> ('f, 'bq, 'agc, 'st) machine" where
  "call_LVC_MixSoft_2Mc env src1 src2 dst frames channels m =
     (case LVC_MixSoft_2Mc_D16C31_SAT env (BypassMixer (pData (inst m)))
             src1 src2 dst frames channels (heap m) of
        (mx, h) \<Rightarrow>
          log_call (Call_LVC_MixSoft_2Mc src1 src2 dst frames channels)
            (m\<lparr>inst := (inst m)\<lparr>pData := (pData (inst m))\<lparr>BypassMixer := mx\<rparr>\<rparr>, heap := h\<rparr>))"

subsection \<open>The routine\<close>

text \<open>
  The three blocks of the routine after the guard, in source order. The locals of the
  routine are their parameters: \<open>NrCh\<close> is the local \<^verbatim>\<open>NrChannels\<close>, \<open>pScr\<close> the
  local \<^verbatim>\<open>pScratch\<close>; \<open>pMono\<close> and \<open>pScratchVol\<close> are the same address.
\<close>

definition DBE_active ::
  "('f, 'bq, 'agc, 'st) collaborators \<Rightarrow> ('bq, 'agc, 'st) LVDBE_Instance_t \<Rightarrow> bool" where
  "DBE_active env pInstance \<longleftrightarrow>
     OperatingMode (Params pInstance) = LVDBE_ON \<or>
     float_ne env
       (LVC_Mixer_GetCurrent env (MixerStream0 (BypassMixer (pData pInstance))))
       (LVC_Mixer_GetTarget env (MixerStream0 (BypassMixer (pData pInstance))))"

definition BypassVolume_active ::
  "('f, 'bq, 'agc, 'st) collaborators \<Rightarrow> ('bq, 'agc, 'st) LVDBE_Instance_t \<Rightarrow> bool" where
  "BypassVolume_active env pInstance \<longleftrightarrow>
     OperatingMode (Params pInstance) = LVDBE_OFF \<or>
     float_ne env
       (LVC_Mixer_GetCurrent env (MixerStream1 (BypassMixer (pData pInstance))))
       (LVC_Mixer_GetTarget env (MixerStream1 (BypassMixer (pData pInstance))))"

definition DBE_path ::
  "('f, 'bq, 'agc, 'st) collaborators \<Rightarrow> addr \<Rightarrow> LVM_UINT16 \<Rightarrow> LVM_INT32 \<Rightarrow> LVM_INT32
    \<Rightarrow> addr \<Rightarrow> addr \<Rightarrow> ('f, 'bq, 'agc, 'st) machine \<Rightarrow> ('f, 'bq, 'agc, 'st) machine" where
  "DBE_path env pInData NrFrames NrCh NrSamples pScr pMono m =
     (if DBE_active env (inst m) then
        let m1 = call_Copy_Float env pInData pScr (ucast NrSamples) m;
            m2 = (if HPFSelect (Params (inst m1)) = LVDBE_HPF_ON
                  then call_HPF_process env pScr pScr (unat NrFrames) m1
                  else m1);
            m3 = call_FromMcToMono_Float env pScr pMono NrFrames (ucast NrCh) m2;
            m4 = call_BPF_process env pMono pMono (unat NrFrames) m3
        in call_AGC_MIX_VOL env pScr pMono pScr NrFrames NrCh m4
      else call_memset env pScr NrSamples m)"

definition BypassVolume_path ::
  "('f, 'bq, 'agc, 'st) collaborators \<Rightarrow> addr \<Rightarrow> LVM_UINT16 \<Rightarrow> LVM_INT32 \<Rightarrow> LVM_INT32
    \<Rightarrow> addr \<Rightarrow> ('f, 'bq, 'agc, 'st) machine \<Rightarrow> ('f, 'bq, 'agc, 'st) machine" where
  "BypassVolume_path env pInData NrFrames NrCh NrSamples pScratchVol m =
     (if BypassVolume_active env (inst m) then
        call_LVC_MixSoft_Mc env pInData pScratchVol NrFrames (ucast NrCh) m
      else call_memset env pScratchVol NrSamples m)"

definition Mix_paths ::
  "('f, 'bq, 'agc, 'st) collaborators \<Rightarrow> addr \<Rightarrow> LVM_UINT16 \<Rightarrow> LVM_INT32
    \<Rightarrow> addr \<Rightarrow> addr \<Rightarrow> ('f, 'bq, 'agc, 'st) machine \<Rightarrow> ('f, 'bq, 'agc, 'st) machine" where
  "Mix_paths env pOutData NrFrames NrCh pScr pScratchVol m =
     call_LVC_MixSoft_2Mc env pScr pScratchVol pOutData NrFrames (ucast NrCh) m"

text \<open>
  \<open>NrSamples = NrChannels * NrFrames\<close> is a product of two \<^verbatim>\<open>int\<close>s after promotion;
  the 32-bit word product is what it evaluates to (C leaves the overflow of the signed
  product undefined; the product of a channel count below \<open>2 ^ 15\<close> and a 16-bit frame
  count does not overflow). \<open>pMono = pScratch + NrSamples\<close> is pointer arithmetic
  with the signed value.
\<close>

definition LVDBE_Process ::
  "('f, 'bq, 'agc, 'st) collaborators \<Rightarrow> addr \<Rightarrow> addr \<Rightarrow> LVM_UINT16
    \<Rightarrow> ('f, 'bq, 'agc, 'st) machine
    \<Rightarrow> LVDBE_ReturnStatus_en \<times> ('f, 'bq, 'agc, 'st) machine" where
  "LVDBE_Process env pInData pOutData NrFrames m =
     (let pInstance = inst m;
          NrCh = NrChannels (Params pInstance);
          NrSamples = NrCh * ucast NrFrames;
          pScr = pScratch pInstance;
          pMono = pScr + sint NrSamples;
          pScratchVol = pMono
      in if uint NrFrames > MaxBlockSize (Capabilities pInstance) then
           (LVDBE_TOOMANYSAMPLES, m)
         else
           let m1 = DBE_path env pInData NrFrames NrCh NrSamples pScr pMono m;
               m2 = BypassVolume_path env pInData NrFrames NrCh NrSamples pScratchVol m1;
               m3 = Mix_paths env pOutData NrFrames NrCh pScr pScratchVol m2
           in (LVDBE_SUCCESS, m3))"

subsection \<open>Reading the record of invocations\<close>

text \<open>Whether an entry is a zero-fill.\<close>

fun is_memset :: "call \<Rightarrow> bool" where
  "is_memset (Call_memset p n) = True"
| "is_memset c = False"


subsection \<open>Contracts of the collaborators\<close>

text \<open>
  \<open>same_outside p n h h'\<close>: the memory \<open>h'\<close> differs from \<open>h\<close> at most in the
  \<open>n\<close> cells from \<open>p\<close> on.
\<close>

definition same_outside :: "addr \<Rightarrow> int \<Rightarrow> 'f heap \<Rightarrow> 'f heap \<Rightarrow> bool" where
  "same_outside p n h h' \<longleftrightarrow> (\<forall>a. a < p \<or> p + n \<le> a \<longrightarrow> h' a = h a)"

text \<open>
  The spec lists the collaborators as primitives \<open>f(in, out, frameCount, channels)\<close>
  that produce an output block. Each contract below says of one of them that, given
  non-negative counts, it writes nowhere but in its destination block, of the extent its
  counts give.
\<close>

text \<open>
  Modelled from the spec: \<^verbatim>\<open>Copy_Float\<close> is missing; it is the copy of the input
  block into the enhanced-path region. It writes at most the \<open>n\<close> cells of its
  destination.
\<close>

definition Copy_Float_frame :: "('f, 'bq, 'agc, 'st) collaborators \<Rightarrow> bool" where
  "Copy_Float_frame env \<longleftrightarrow>
     (\<forall>src dst n h. 0 \<le> sint n \<longrightarrow>
        same_outside dst (sint n) h (Copy_Float env src dst n h))"

text \<open>
  Modelled from the spec: \<^verbatim>\<open>BiquadFilter::process\<close> is missing; the spec has the
  high-pass filter work in place over the enhanced-path region, per frame and on all
  channels. The high-pass filter object of the instance writes at most
  \<open>frames * NrChannels\<close> cells of its destination.
\<close>

definition HPF_frame ::
  "('f, 'bq, 'agc, 'st) collaborators \<Rightarrow> ('bq, 'agc, 'st) LVDBE_Instance_t \<Rightarrow> bool" where
  "HPF_frame env pInstance \<longleftrightarrow>
     (\<forall>src dst n h.
        same_outside dst (int n * sint (NrChannels (Params pInstance))) h
          (snd (BiquadFilter_process env (pHPFBiquad pInstance) src dst n h)))"

text \<open>
  Modelled from the spec: \<^verbatim>\<open>BiquadFilter::process\<close> is missing; the spec has the
  band-pass filter work in place over the mono region. The band-pass filter object of the
  instance writes at most \<open>frames\<close> cells of its destination.
\<close>

definition BPF_frame ::
  "('f, 'bq, 'agc, 'st) collaborators \<Rightarrow> ('bq, 'agc, 'st) LVDBE_Instance_t \<Rightarrow> bool" where
  "BPF_frame env pInstance \<longleftrightarrow>
     (\<forall>src dst n h.
        same_outside dst (int n) h
          (snd (BiquadFilter_process env (pBPFBiquad pInstance) src dst n h)))"

text \<open>
  Modelled from the spec: \<^verbatim>\<open>FromMcToMono_Float\<close> is missing; the spec has it
  collapse each frame to one sample of the mono region. It writes at most \<open>frames\<close>
  cells of its destination.
\<close>

definition FromMcToMono_Float_frame :: "('f, 'bq, 'agc, 'st) collaborators \<Rightarrow> bool" where
  "FromMcToMono_Float_frame env \<longleftrightarrow>
     (\<forall>src dst f c h. 0 \<le> sint f \<and> 0 \<le> sint c \<longrightarrow>
        same_outside dst (sint f) h (FromMcToMono_Float env src dst f c h))"

text \<open>
  Modelled from the spec: \<^verbatim>\<open>AGC_MIX_VOL_Mc1Mon_D32_WRA\<close> is missing; the spec has it
  produce the adjusted multichannel block. It writes at most \<open>frames * channels\<close> cells
  of its destination.
\<close>

definition AGC_MIX_VOL_frame :: "('f, 'bq, 'agc, 'st) collaborators \<Rightarrow> bool" where
  "AGC_MIX_VOL_frame env \<longleftrightarrow>
     (\<forall>agc src monoSrc dst f c h. 0 \<le> sint c \<longrightarrow>
        same_outside dst (uint f * sint c) h
          (snd (AGC_MIX_VOL_Mc1Mon_D32_WRA env agc src monoSrc dst f c h)))"

text \<open>
  Modelled from the spec: \<^verbatim>\<open>LVC_MixSoft_Mc_D16C31_SAT\<close> is missing; the spec has it
  a single-input mixer \<open>mix(state, in, out, frameCount, channels)\<close>. It writes at most
  \<open>frames * channels\<close> cells of its destination.
\<close>

definition LVC_MixSoft_Mc_frame :: "('f, 'bq, 'agc, 'st) collaborators \<Rightarrow> bool" where
  "LVC_MixSoft_Mc_frame env \<longleftrightarrow>
     (\<forall>st src dst f c h. 0 \<le> sint f \<and> 0 \<le> sint c \<longrightarrow>
        same_outside dst (sint f * sint c) h
          (snd (LVC_MixSoft_Mc_D16C31_SAT env st src dst f c h)))"

text \<open>
  Modelled from the spec: \<^verbatim>\<open>LVC_MixSoft_2Mc_D16C31_SAT\<close> is missing; the spec has
  it a two-input mixer \<open>mix2(state, inA, inB, out, frameCount, channels)\<close> whose output
  occupies exactly \<open>channels * frames\<close> samples. It writes at most \<open>frames * channels\<close>
  cells of its destination.
\<close>

definition LVC_MixSoft_2Mc_frame :: "('f, 'bq, 'agc, 'st) collaborators \<Rightarrow> bool" where
  "LVC_MixSoft_2Mc_frame env \<longleftrightarrow>
     (\<forall>mx src1 src2 dst f c h. 0 \<le> sint f \<and> 0 \<le> sint c \<longrightarrow>
        same_outside dst (sint f * sint c) h
          (snd (LVC_MixSoft_2Mc_D16C31_SAT env mx src1 src2 dst f c h)))"

subsection \<open>Reference collaborators\<close>

text \<open>
  One concrete set of collaborators, on which the routine can be run and against which the
  statements about sample values are settled. Samples and gains are integers (small
  integers and their sums and products are exact in the working precision). Each
  collaborator reads the memory it is given and returns the memory with its destination
  block rewritten; a count that is not positive leaves no cell to write.
\<close>

definition write_block :: "addr \<Rightarrow> 'f list \<Rightarrow> 'f heap \<Rightarrow> 'f heap" where
  "write_block p xs h = (\<lambda>a. if p \<le> a \<and> a < p + int (length xs) then xs ! nat (a - p) else h a)"

definition saturate :: "int \<Rightarrow> int" where
  "saturate x = max (- 32768) (min 32767 x)"

record ref_stream =
  Current :: int
  Target :: int

text \<open>
  Modelled from the spec: \<^verbatim>\<open>Copy_Float\<close> is missing; the spec has it copy the input
  block into the scratch region. The reference copies the \<open>n\<close> cells from \<open>src\<close> on to
  the \<open>n\<close> cells from \<open>dst\<close> on, \<open>n\<close> read as a signed 16-bit count.
\<close>

definition ref_Copy_Float :: "addr \<Rightarrow> addr \<Rightarrow> LVM_INT16 \<Rightarrow> int heap \<Rightarrow> int heap" where
  "ref_Copy_Float src dst n h =
     (\<lambda>a. if dst \<le> a \<and> a < dst + sint n then h (src + (a - dst)) else h a)"

text \<open>
  Modelled from the spec: \<^verbatim>\<open>BiquadFilter::process\<close> is missing; the spec has it a
  stateful filter object \<open>process(in, out, frameCount)\<close>. The state of the reference
  filter is its channel count and the number of frames it has seen; it doubles every
  sample of the \<open>frameCount\<close> frames (a filter with the single coefficient \<open>b0 = 2\<close>).
\<close>

definition ref_BiquadFilter_process ::
  "nat \<times> nat \<Rightarrow> addr \<Rightarrow> addr \<Rightarrow> nat \<Rightarrow> int heap \<Rightarrow> (nat \<times> nat) \<times> int heap" where
  "ref_BiquadFilter_process bq src dst n h =
     ((fst bq, snd bq + n),
      (\<lambda>a. if dst \<le> a \<and> a < dst + int (n * fst bq) then 2 * h (src + (a - dst)) else h a))"

text \<open>
  Modelled from the spec: \<^verbatim>\<open>FromMcToMono_Float\<close> is missing; the spec has it combine
  the channels of each frame into one sample, by a rule it leaves to the collaborator. The
  reference sums them.
\<close>

definition ref_FromMcToMono_Float ::
  "addr \<Rightarrow> addr \<Rightarrow> LVM_INT16 \<Rightarrow> LVM_INT16 \<Rightarrow> int heap \<Rightarrow> int heap" where
  "ref_FromMcToMono_Float src dst f c h =
     (\<lambda>a. if dst \<le> a \<and> a < dst + sint f
          then sum_list (map (\<lambda>k. h (src + (a - dst) * sint c + int k)) [0..<nat (sint c)])
          else h a)"

text \<open>
  Modelled from the spec: \<^verbatim>\<open>AGC_MIX_VOL_Mc1Mon_D32_WRA\<close> is missing; the spec has it
  apply a gain to the mono signal and mix it into every channel of the multichannel
  block. The reference keeps its gain fixed.
\<close>

definition ref_AGC_MIX_VOL ::
  "int \<Rightarrow> addr \<Rightarrow> addr \<Rightarrow> addr \<Rightarrow> LVM_UINT16 \<Rightarrow> LVM_INT32 \<Rightarrow> int heap \<Rightarrow> int \<times> int heap" where
  "ref_AGC_MIX_VOL agc src monoSrc dst f c h =
     (agc,
      (\<lambda>a. if dst \<le> a \<and> a < dst + uint f * sint c
           then h (src + (a - dst)) + agc * h (monoSrc + (a - dst) div sint c)
           else h a))"

text \<open>
  The number of samples a mixer writes: \<open>frames * channels\<close>, both read as signed 16-bit
  counts, and none if one of them is not positive.
\<close>

definition mix_extent :: "LVM_INT16 \<Rightarrow> LVM_INT16 \<Rightarrow> int" where
  "mix_extent f c = (if 0 < sint f \<and> 0 < sint c then sint f * sint c else 0)"

text \<open>
  Modelled from the spec: \<^verbatim>\<open>LVC_MixSoft_Mc_D16C31_SAT\<close> is missing; the spec has it
  apply a smoothed, saturating gain, the current gain ramping toward the target each
  call. The reference applies the current gain to every sample, saturates, and moves the
  current gain to the target with each call.
\<close>

definition ref_LVC_MixSoft_Mc ::
  "ref_stream \<Rightarrow> addr \<Rightarrow> addr \<Rightarrow> LVM_INT16 \<Rightarrow> LVM_INT16 \<Rightarrow> int heap \<Rightarrow> ref_stream \<times> int heap" where
  "ref_LVC_MixSoft_Mc st src dst f c h =
     (st\<lparr>Current := Target st\<rparr>,
      (\<lambda>a. if dst \<le> a \<and> a < dst + mix_extent f c
           then saturate (Current st * h (src + (a - dst)))
           else h a))"

text \<open>
  Modelled from the spec: \<^verbatim>\<open>LVC_MixSoft_2Mc_D16C31_SAT\<close> is missing; the spec has it
  weight each of its two inputs by that input's own smoothed gain (the current value
  ramping toward the target each call) and saturate the sum. The reference does so with
  the current gains of the two streams, and moves both to their targets with each call.
\<close>

definition ref_LVC_MixSoft_2Mc ::
  "ref_stream LVMixer3_2St_FLOAT_st \<Rightarrow> addr \<Rightarrow> addr \<Rightarrow> addr \<Rightarrow> LVM_INT16 \<Rightarrow> LVM_INT16 \<Rightarrow> int heap
    \<Rightarrow> ref_stream LVMixer3_2St_FLOAT_st \<times> int heap" where
  "ref_LVC_MixSoft_2Mc mx src1 src2 dst f c h =
     (\<lparr>MixerStream0 = (MixerStream0 mx)\<lparr>Current := Target (MixerStream0 mx)\<rparr>,
       MixerStream1 = (MixerStream1 mx)\<lparr>Current := Target (MixerStream1 mx)\<rparr>\<rparr>,
      (\<lambda>a. if dst \<le> a \<and> a < dst + mix_extent f c
           then saturate (Current (MixerStream0 mx) * h (src1 + (a - dst)) +
                          Current (MixerStream1 mx) * h (src2 + (a - dst)))
           else h a))"

definition ref_env :: "(int, nat \<times> nat, int, ref_stream) collaborators" where
  "ref_env =
     \<lparr>float_zero = 0,
      float_ne = (\<lambda>x y. x \<noteq> y),
      LVC_Mixer_GetCurrent = Current,
      LVC_Mixer_GetTarget = Target,
      Copy_Float = ref_Copy_Float,
      BiquadFilter_process = ref_BiquadFilter_process,
      FromMcToMono_Float = ref_FromMcToMono_Float,
      AGC_MIX_VOL_Mc1Mon_D32_WRA = ref_AGC_MIX_VOL,
      LVC_MixSoft_Mc_D16C31_SAT = ref_LVC_MixSoft_Mc,
      LVC_MixSoft_2Mc_D16C31_SAT = ref_LVC_MixSoft_2Mc\<rparr>"

text \<open>
  Modelled from the spec: \<^verbatim>\<open>Copy_Float\<close> is missing, and the spec says nothing of a
  copy that is handed a negative count. This one copies as the reference does when its
  count is not negative, and otherwise writes the value 42 in the cell below its
  destination. \<open>stray_env\<close> is the reference set of collaborators with this copy.
\<close>

definition stray_Copy_Float :: "addr \<Rightarrow> addr \<Rightarrow> LVM_INT16 \<Rightarrow> int heap \<Rightarrow> int heap" where
  "stray_Copy_Float src dst n h =
     (if 0 \<le> sint n then ref_Copy_Float src dst n h else h(dst - 1 := 42))"

definition stray_env :: "(int, nat \<times> nat, int, ref_stream) collaborators" where
  "stray_env = ref_env\<lparr>Copy_Float := stray_Copy_Float\<rparr>"

subsection \<open>Example states\<close>

text \<open>
  An instance with its scratch buffer at address 1000, a bypass volume whose gain is 2 and
  moves to 1, a unity AGC gain, a high-pass filter on all channels and a mono band-pass
  filter; and a machine whose memory holds the samples 5, 7, 9, 11 at addresses 0 to 3 and
  at every other address \<open>a\<close> the value \<open>- a - 1\<close>, so that a cell that is cleared or
  rewritten is told from one that is left as it was.
\<close>

definition example_instance ::
  "LVDBE_Mode_en \<Rightarrow> LVDBE_FilterSelect_en \<Rightarrow> LVM_INT32 \<Rightarrow> int \<Rightarrow> ref_stream \<Rightarrow> ref_stream
    \<Rightarrow> (nat \<times> nat, int, ref_stream) LVDBE_Instance_t" where
  "example_instance mode hpf channels maxBlock s0 s1 =
     \<lparr>Capabilities = \<lparr>MaxBlockSize = maxBlock\<rparr>,
      Params = \<lparr>OperatingMode = mode, HPFSelect = hpf, NrChannels = channels\<rparr>,
      pData = \<lparr>AGCInstance = 1,
               BypassVolume = \<lparr>Current = 2, Target = 1\<rparr>,
               BypassMixer = \<lparr>MixerStream0 = s0, MixerStream1 = s1\<rparr>\<rparr>,
      pScratch = 1000,
      pHPFBiquad = (nat (sint channels), 0),
      pBPFBiquad = (1, 0)\<rparr>"

definition example_heap :: "int heap" where
  "example_heap = write_block 0 [5, 7, 9, 11] (\<lambda>a. - a - 1)"

definition example_machine ::
  "LVDBE_Mode_en \<Rightarrow> LVDBE_FilterSelect_en \<Rightarrow> LVM_INT32 \<Rightarrow> int \<Rightarrow> ref_stream \<Rightarrow> ref_stream
    \<Rightarrow> (int, nat \<times> nat, int, ref_stream) machine" where
  "example_machine mode hpf channels maxBlock s0 s1 =
     \<lparr>inst = example_instance mode hpf channels maxBlock s0 s1,
      heap = example_heap,
      calls = []\<rparr>"

section \<open>Properties\<close>

subsection \<open>Auxiliary facts\<close>

lemma memset_cells_nonneg: "0 \<le> sint n \<Longrightarrow> memset_cells n = sint n"
proof -
  assume nonneg: "0 \<le> sint n"
  have "sint n < 2 ^ 31"
    using sint_lt [of n] by simp
  then have "4 * sint n < 2 ^ 64"
    by simp
  with nonneg have "(4 * sint n) mod 2 ^ 64 = 4 * sint n"
    by simp
  then show ?thesis
    by (simp add: memset_cells_def)
qed

lemma calls_log_call [simp]: "calls (log_call c m) = calls m @ [c]"
  by (simp add: log_call_def)

lemma inst_log_call [simp]: "inst (log_call c m) = inst m"
  by (simp add: log_call_def)

lemma heap_log_call [simp]: "heap (log_call c m) = heap m"
  by (simp add: log_call_def)

lemma calls_call_Copy_Float [simp]:
  "calls (call_Copy_Float env src dst n m) = calls m @ [Call_Copy_Float src dst n]"
  by (simp add: call_Copy_Float_def)

lemma calls_call_HPF_process [simp]:
  "calls (call_HPF_process env src dst n m) = calls m @ [Call_HPF_process src dst n]"
  by (simp add: call_HPF_process_def split: prod.split)

lemma calls_call_BPF_process [simp]:
  "calls (call_BPF_process env src dst n m) = calls m @ [Call_BPF_process src dst n]"
  by (simp add: call_BPF_process_def split: prod.split)

lemma calls_call_FromMcToMono_Float [simp]:
  "calls (call_FromMcToMono_Float env src dst f c m) =
     calls m @ [Call_FromMcToMono_Float src dst f c]"
  by (simp add: call_FromMcToMono_Float_def)

lemma calls_call_AGC_MIX_VOL [simp]:
  "calls (call_AGC_MIX_VOL env src mo dst f c m) = calls m @ [Call_AGC_MIX_VOL src mo dst f c]"
  by (simp add: call_AGC_MIX_VOL_def split: prod.split)

lemma calls_call_memset [simp]:
  "calls (call_memset env p n m) = calls m @ [Call_memset p n]"
  by (simp add: call_memset_def)

lemma calls_call_LVC_MixSoft_Mc [simp]:
  "calls (call_LVC_MixSoft_Mc env src dst f c m) = calls m @ [Call_LVC_MixSoft_Mc src dst f c]"
  by (simp add: call_LVC_MixSoft_Mc_def split: prod.split)

lemma calls_call_LVC_MixSoft_2Mc [simp]:
  "calls (call_LVC_MixSoft_2Mc env s1 s2 dst f c m) =
     calls m @ [Call_LVC_MixSoft_2Mc s1 s2 dst f c]"
  by (simp add: call_LVC_MixSoft_2Mc_def split: prod.split)

text \<open>No call site touches the parameters, the capabilities or the scratch pointer.\<close>

lemma Params_call_Copy_Float [simp]:
  "Params (inst (call_Copy_Float env src dst n m)) = Params (inst m)"
  by (simp add: call_Copy_Float_def)

lemma Params_call_HPF_process [simp]:
  "Params (inst (call_HPF_process env src dst n m)) = Params (inst m)"
  by (simp add: call_HPF_process_def split: prod.split)

lemma Params_call_BPF_process [simp]:
  "Params (inst (call_BPF_process env src dst n m)) = Params (inst m)"
  by (simp add: call_BPF_process_def split: prod.split)

lemma Params_call_FromMcToMono_Float [simp]:
  "Params (inst (call_FromMcToMono_Float env src dst f c m)) = Params (inst m)"
  by (simp add: call_FromMcToMono_Float_def)

lemma Params_call_AGC_MIX_VOL [simp]:
  "Params (inst (call_AGC_MIX_VOL env src mo dst f c m)) = Params (inst m)"
  by (simp add: call_AGC_MIX_VOL_def split: prod.split)

lemma Params_call_memset [simp]:
  "Params (inst (call_memset env p n m)) = Params (inst m)"
  by (simp add: call_memset_def)

lemma BypassMixer_call_Copy_Float [simp]:
  "BypassMixer (pData (inst (call_Copy_Float env src dst n m))) = BypassMixer (pData (inst m))"
  by (simp add: call_Copy_Float_def)

lemma BypassMixer_call_HPF_process [simp]:
  "BypassMixer (pData (inst (call_HPF_process env src dst n m))) = BypassMixer (pData (inst m))"
  by (simp add: call_HPF_process_def split: prod.split)

lemma BypassMixer_call_BPF_process [simp]:
  "BypassMixer (pData (inst (call_BPF_process env src dst n m))) = BypassMixer (pData (inst m))"
  by (simp add: call_BPF_process_def split: prod.split)

lemma BypassMixer_call_FromMcToMono_Float [simp]:
  "BypassMixer (pData (inst (call_FromMcToMono_Float env src dst f c m))) =
     BypassMixer (pData (inst m))"
  by (simp add: call_FromMcToMono_Float_def)

lemma BypassMixer_call_AGC_MIX_VOL [simp]:
  "BypassMixer (pData (inst (call_AGC_MIX_VOL env src mo dst f c m))) =
     BypassMixer (pData (inst m))"
  by (simp add: call_AGC_MIX_VOL_def split: prod.split)

lemma BypassMixer_call_memset [simp]:
  "BypassMixer (pData (inst (call_memset env p n m))) = BypassMixer (pData (inst m))"
  by (simp add: call_memset_def)

text \<open>
  The enhanced-path block changes neither the operating mode nor the bypass mixer, so the
  second decision of the routine reads what the first one read.
\<close>

lemma Params_DBE_path [simp]:
  "Params (inst (DBE_path env pInData NrFrames NrCh NrSamples pScr pMono m)) = Params (inst m)"
  by (simp add: DBE_path_def Let_def)

lemma BypassMixer_DBE_path [simp]:
  "BypassMixer (pData (inst (DBE_path env pInData NrFrames NrCh NrSamples pScr pMono m))) =
     BypassMixer (pData (inst m))"
  by (simp add: DBE_path_def Let_def)

lemma BypassVolume_active_DBE_path [simp]:
  "BypassVolume_active env (inst (DBE_path env pInData NrFrames NrCh NrSamples pScr pMono m)) =
     BypassVolume_active env (inst m)"
  by (simp add: BypassVolume_active_def)

lemma calls_DBE_path:
  "calls (DBE_path env pInData NrFrames NrCh NrSamples pScr pMono m) =
     calls m @
     (if DBE_active env (inst m) then
        [Call_Copy_Float pInData pScr (ucast NrSamples)] @
        (if HPFSelect (Params (inst m)) = LVDBE_HPF_ON
         then [Call_HPF_process pScr pScr (unat NrFrames)] else []) @
        [Call_FromMcToMono_Float pScr pMono NrFrames (ucast NrCh),
         Call_BPF_process pMono pMono (unat NrFrames),
         Call_AGC_MIX_VOL pScr pMono pScr NrFrames NrCh]
      else [Call_memset pScr NrSamples])"
  by (simp add: DBE_path_def Let_def)

lemma calls_BypassVolume_path:
  "calls (BypassVolume_path env pInData NrFrames NrCh NrSamples pScratchVol m) =
     calls m @
     [if BypassVolume_active env (inst m)
      then Call_LVC_MixSoft_Mc pInData pScratchVol NrFrames (ucast NrCh)
      else Call_memset pScratchVol NrSamples]"
  by (simp add: BypassVolume_path_def)

lemma calls_Mix_paths:
  "calls (Mix_paths env pOutData NrFrames NrCh pScr pScratchVol m) =
     calls m @ [Call_LVC_MixSoft_2Mc pScr pScratchVol pOutData NrFrames (ucast NrCh)]"
  by (simp add: Mix_paths_def)


lemma LVDBE_Process_success:
  "uint NrFrames \<le> MaxBlockSize (Capabilities (inst m)) \<Longrightarrow>
   LVDBE_Process env pInData pOutData NrFrames m =
     (LVDBE_SUCCESS,
      Mix_paths env pOutData NrFrames (NrChannels (Params (inst m)))
        (pScratch (inst m))
        (pScratch (inst m) + sint (NrChannels (Params (inst m)) * ucast NrFrames))
        (BypassVolume_path env pInData NrFrames (NrChannels (Params (inst m)))
           (NrChannels (Params (inst m)) * ucast NrFrames)
           (pScratch (inst m) + sint (NrChannels (Params (inst m)) * ucast NrFrames))
           (DBE_path env pInData NrFrames (NrChannels (Params (inst m)))
              (NrChannels (Params (inst m)) * ucast NrFrames)
              (pScratch (inst m))
              (pScratch (inst m) + sint (NrChannels (Params (inst m)) * ucast NrFrames)) m)))"
  by (simp add: LVDBE_Process_def Let_def)

subsection \<open>The block-size guard\<close>

text \<open>
  C1. The routine returns \<^verbatim>\<open>LVDBE_TOOMANYSAMPLES\<close> exactly when the frame count
  exceeds the maximum block size of the instance; it then returns the machine as it found
  it: memory (output block and scratch buffer included), mixer streams, filters, AGC, and
  no collaborator invoked. For every other frame count it returns \<^verbatim>\<open>LVDBE_SUCCESS\<close>.
\<close>

theorem C1_block_size_guard:
  "(fst (LVDBE_Process env pInData pOutData NrFrames m) = LVDBE_TOOMANYSAMPLES \<longleftrightarrow>
      MaxBlockSize (Capabilities (inst m)) < uint NrFrames) \<and>
   (MaxBlockSize (Capabilities (inst m)) < uint NrFrames \<longrightarrow>
      snd (LVDBE_Process env pInData pOutData NrFrames m) = m) \<and>
   (uint NrFrames \<le> MaxBlockSize (Capabilities (inst m)) \<longrightarrow>
      fst (LVDBE_Process env pInData pOutData NrFrames m) = LVDBE_SUCCESS)"
  by (simp add: LVDBE_Process_def Let_def)

theorem C1_block_size_guard_witness:
  "MaxBlockSize (Capabilities (inst
      (example_machine LVDBE_ON LVDBE_HPF_ON 2 4
         \<lparr>Current = 1, Target = 1\<rparr> \<lparr>Current = 0, Target = 0\<rparr>))) < uint (5 :: LVM_UINT16) \<and>
   LVDBE_Process ref_env 0 100 5
     (example_machine LVDBE_ON LVDBE_HPF_ON 2 4
        \<lparr>Current = 1, Target = 1\<rparr> \<lparr>Current = 0, Target = 0\<rparr>) =
     (LVDBE_TOOMANYSAMPLES,
      example_machine LVDBE_ON LVDBE_HPF_ON 2 4
        \<lparr>Current = 1, Target = 1\<rparr> \<lparr>Current = 0, Target = 0\<rparr>) \<and>
   uint (4 :: LVM_UINT16) \<le> MaxBlockSize (Capabilities (inst
      (example_machine LVDBE_ON LVDBE_HPF_ON 2 4
         \<lparr>Current = 1, Target = 1\<rparr> \<lparr>Current = 0, Target = 0\<rparr>))) \<and>
   fst (LVDBE_Process ref_env 0 100 4
     (example_machine LVDBE_ON LVDBE_HPF_ON 2 4
        \<lparr>Current = 1, Target = 1\<rparr> \<lparr>Current = 0, Target = 0\<rparr>)) = LVDBE_SUCCESS"
  using C1_block_size_guard [of ref_env 0 100 5
      "example_machine LVDBE_ON LVDBE_HPF_ON 2 4
         \<lparr>Current = 1, Target = 1\<rparr> \<lparr>Current = 0, Target = 0\<rparr>"]
    C1_block_size_guard [of ref_env 0 100 4
      "example_machine LVDBE_ON LVDBE_HPF_ON 2 4
         \<lparr>Current = 1, Target = 1\<rparr> \<lparr>Current = 0, Target = 0\<rparr>"]
  by (simp add: example_machine_def example_instance_def prod_eq_iff)

subsection \<open>What the call sites leave\<close>

text \<open>
  Each call site leaves the memory its collaborator returns, puts the sub-object the
  collaborator returns back in its place, and touches nothing else of the instance.
\<close>

lemma heap_call_Copy_Float:
  "heap (call_Copy_Float env src dst n m) = Copy_Float env src dst n (heap m)"
  by (simp add: call_Copy_Float_def)

lemma inst_call_Copy_Float [simp]: "inst (call_Copy_Float env src dst n m) = inst m"
  by (simp add: call_Copy_Float_def)

lemma heap_call_HPF_process:
  "heap (call_HPF_process env src dst n m) =
     snd (BiquadFilter_process env (pHPFBiquad (inst m)) src dst n (heap m))"
  by (simp add: call_HPF_process_def split_beta)

lemma inst_call_HPF_process:
  "inst (call_HPF_process env src dst n m) =
     (inst m)\<lparr>pHPFBiquad :=
        fst (BiquadFilter_process env (pHPFBiquad (inst m)) src dst n (heap m))\<rparr>"
  by (simp add: call_HPF_process_def split_beta)

lemma heap_call_FromMcToMono_Float:
  "heap (call_FromMcToMono_Float env src dst f c m) =
     FromMcToMono_Float env src dst f c (heap m)"
  by (simp add: call_FromMcToMono_Float_def)

lemma inst_call_FromMcToMono_Float [simp]:
  "inst (call_FromMcToMono_Float env src dst f c m) = inst m"
  by (simp add: call_FromMcToMono_Float_def)

lemma heap_call_BPF_process:
  "heap (call_BPF_process env src dst n m) =
     snd (BiquadFilter_process env (pBPFBiquad (inst m)) src dst n (heap m))"
  by (simp add: call_BPF_process_def split_beta)

lemma inst_call_BPF_process:
  "inst (call_BPF_process env src dst n m) =
     (inst m)\<lparr>pBPFBiquad :=
        fst (BiquadFilter_process env (pBPFBiquad (inst m)) src dst n (heap m))\<rparr>"
  by (simp add: call_BPF_process_def split_beta)

lemma heap_call_AGC_MIX_VOL:
  "heap (call_AGC_MIX_VOL env src mo dst f c m) =
     snd (AGC_MIX_VOL_Mc1Mon_D32_WRA env (AGCInstance (pData (inst m))) src mo dst f c (heap m))"
  by (simp add: call_AGC_MIX_VOL_def split_beta)

lemma inst_call_AGC_MIX_VOL:
  "inst (call_AGC_MIX_VOL env src mo dst f c m) =
     (inst m)\<lparr>pData := (pData (inst m))\<lparr>AGCInstance :=
        fst (AGC_MIX_VOL_Mc1Mon_D32_WRA env (AGCInstance (pData (inst m))) src mo dst f c
               (heap m))\<rparr>\<rparr>"
  by (simp add: call_AGC_MIX_VOL_def split_beta)

lemma heap_call_memset:
  "heap (call_memset env p n m) = memset_zero (float_zero env) p (memset_cells n) (heap m)"
  by (simp add: call_memset_def)

lemma inst_call_memset [simp]: "inst (call_memset env p n m) = inst m"
  by (simp add: call_memset_def)

lemma heap_call_LVC_MixSoft_Mc:
  "heap (call_LVC_MixSoft_Mc env src dst f c m) =
     snd (LVC_MixSoft_Mc_D16C31_SAT env (BypassVolume (pData (inst m))) src dst f c (heap m))"
  by (simp add: call_LVC_MixSoft_Mc_def split_beta)

lemma inst_call_LVC_MixSoft_Mc:
  "inst (call_LVC_MixSoft_Mc env src dst f c m) =
     (inst m)\<lparr>pData := (pData (inst m))\<lparr>BypassVolume :=
        fst (LVC_MixSoft_Mc_D16C31_SAT env (BypassVolume (pData (inst m))) src dst f c
               (heap m))\<rparr>\<rparr>"
  by (simp add: call_LVC_MixSoft_Mc_def split_beta)

lemma heap_call_LVC_MixSoft_2Mc:
  "heap (call_LVC_MixSoft_2Mc env src1 src2 dst f c m) =
     snd (LVC_MixSoft_2Mc_D16C31_SAT env (BypassMixer (pData (inst m))) src1 src2 dst f c
            (heap m))"
  by (simp add: call_LVC_MixSoft_2Mc_def split_beta)

lemma inst_call_LVC_MixSoft_2Mc:
  "inst (call_LVC_MixSoft_2Mc env src1 src2 dst f c m) =
     (inst m)\<lparr>pData := (pData (inst m))\<lparr>BypassMixer :=
        fst (LVC_MixSoft_2Mc_D16C31_SAT env (BypassMixer (pData (inst m))) src1 src2 dst f c
               (heap m))\<rparr>\<rparr>"
  by (simp add: call_LVC_MixSoft_2Mc_def split_beta)

text \<open>
  The memory and the instance after each of the three blocks, in terms of what the
  collaborators return.
\<close>

lemma heap_DBE_path:
  "heap (DBE_path env pInData NrFrames NrCh NrSamples pScr pMono m) =
     (if DBE_active env (inst m) then
        snd (AGC_MIX_VOL_Mc1Mon_D32_WRA env (AGCInstance (pData (inst m)))
               pScr pMono pScr NrFrames NrCh
               (snd (BiquadFilter_process env (pBPFBiquad (inst m)) pMono pMono (unat NrFrames)
                  (FromMcToMono_Float env pScr pMono NrFrames (ucast NrCh)
                     (if HPFSelect (Params (inst m)) = LVDBE_HPF_ON
                      then snd (BiquadFilter_process env (pHPFBiquad (inst m)) pScr pScr
                                  (unat NrFrames)
                                  (Copy_Float env pInData pScr (ucast NrSamples) (heap m)))
                      else Copy_Float env pInData pScr (ucast NrSamples) (heap m))))))
      else memset_zero (float_zero env) pScr (memset_cells NrSamples) (heap m))"
  by (simp add: DBE_path_def Let_def heap_call_AGC_MIX_VOL inst_call_AGC_MIX_VOL
      heap_call_BPF_process inst_call_BPF_process heap_call_FromMcToMono_Float
      heap_call_HPF_process inst_call_HPF_process heap_call_Copy_Float heap_call_memset)

lemma inst_DBE_path:
  "inst (DBE_path env pInData NrFrames NrCh NrSamples pScr pMono m) =
     (if DBE_active env (inst m) then
        (inst m)\<lparr>
          pHPFBiquad :=
            (if HPFSelect (Params (inst m)) = LVDBE_HPF_ON
             then fst (BiquadFilter_process env (pHPFBiquad (inst m)) pScr pScr (unat NrFrames)
                         (Copy_Float env pInData pScr (ucast NrSamples) (heap m)))
             else pHPFBiquad (inst m)),
          pBPFBiquad :=
            fst (BiquadFilter_process env (pBPFBiquad (inst m)) pMono pMono (unat NrFrames)
                  (FromMcToMono_Float env pScr pMono NrFrames (ucast NrCh)
                     (if HPFSelect (Params (inst m)) = LVDBE_HPF_ON
                      then snd (BiquadFilter_process env (pHPFBiquad (inst m)) pScr pScr
                                  (unat NrFrames)
                                  (Copy_Float env pInData pScr (ucast NrSamples) (heap m)))
                      else Copy_Float env pInData pScr (ucast NrSamples) (heap m)))),
          pData := (pData (inst m))\<lparr>AGCInstance :=
            fst (AGC_MIX_VOL_Mc1Mon_D32_WRA env (AGCInstance (pData (inst m)))
               pScr pMono pScr NrFrames NrCh
               (snd (BiquadFilter_process env (pBPFBiquad (inst m)) pMono pMono (unat NrFrames)
                  (FromMcToMono_Float env pScr pMono NrFrames (ucast NrCh)
                     (if HPFSelect (Params (inst m)) = LVDBE_HPF_ON
                      then snd (BiquadFilter_process env (pHPFBiquad (inst m)) pScr pScr
                                  (unat NrFrames)
                                  (Copy_Float env pInData pScr (ucast NrSamples) (heap m)))
                      else Copy_Float env pInData pScr (ucast NrSamples) (heap m))))))\<rparr>\<rparr>
      else inst m)"
  by (simp add: DBE_path_def Let_def heap_call_AGC_MIX_VOL inst_call_AGC_MIX_VOL
      heap_call_BPF_process inst_call_BPF_process heap_call_FromMcToMono_Float
      heap_call_HPF_process inst_call_HPF_process heap_call_Copy_Float)

lemma heap_BypassVolume_path:
  "heap (BypassVolume_path env pInData NrFrames NrCh NrSamples pScratchVol m) =
     (if BypassVolume_active env (inst m) then
        snd (LVC_MixSoft_Mc_D16C31_SAT env (BypassVolume (pData (inst m)))
               pInData pScratchVol NrFrames (ucast NrCh) (heap m))
      else memset_zero (float_zero env) pScratchVol (memset_cells NrSamples) (heap m))"
  by (simp add: BypassVolume_path_def heap_call_LVC_MixSoft_Mc heap_call_memset)

lemma inst_BypassVolume_path:
  "inst (BypassVolume_path env pInData NrFrames NrCh NrSamples pScratchVol m) =
     (if BypassVolume_active env (inst m) then
        (inst m)\<lparr>pData := (pData (inst m))\<lparr>BypassVolume :=
           fst (LVC_MixSoft_Mc_D16C31_SAT env (BypassVolume (pData (inst m)))
                  pInData pScratchVol NrFrames (ucast NrCh) (heap m))\<rparr>\<rparr>
      else inst m)"
  by (simp add: BypassVolume_path_def inst_call_LVC_MixSoft_Mc)

lemma heap_Mix_paths:
  "heap (Mix_paths env pOutData NrFrames NrCh pScr pScratchVol m) =
     snd (LVC_MixSoft_2Mc_D16C31_SAT env (BypassMixer (pData (inst m)))
            pScr pScratchVol pOutData NrFrames (ucast NrCh) (heap m))"
  by (simp add: Mix_paths_def heap_call_LVC_MixSoft_2Mc)

lemma inst_Mix_paths:
  "inst (Mix_paths env pOutData NrFrames NrCh pScr pScratchVol m) =
     (inst m)\<lparr>pData := (pData (inst m))\<lparr>BypassMixer :=
        fst (LVC_MixSoft_2Mc_D16C31_SAT env (BypassMixer (pData (inst m)))
               pScr pScratchVol pOutData NrFrames (ucast NrCh) (heap m))\<rparr>\<rparr>"
  by (simp add: Mix_paths_def inst_call_LVC_MixSoft_2Mc)

subsection \<open>The enhanced path, the bypass-volume path and the final mix\<close>

lemma new_calls_LVDBE_Process:
  assumes "uint NrFrames \<le> MaxBlockSize (Capabilities (inst m))"
  shows "calls (snd (LVDBE_Process env pInData pOutData NrFrames m)) =
     calls m @
     (if DBE_active env (inst m) then
        [Call_Copy_Float pInData (pScratch (inst m))
           (ucast (NrChannels (Params (inst m)) * ucast NrFrames))] @
        (if HPFSelect (Params (inst m)) = LVDBE_HPF_ON
         then [Call_HPF_process (pScratch (inst m)) (pScratch (inst m)) (unat NrFrames)]
         else []) @
        [Call_FromMcToMono_Float (pScratch (inst m))
           (pScratch (inst m) + sint (NrChannels (Params (inst m)) * ucast NrFrames))
           NrFrames (ucast (NrChannels (Params (inst m)))),
         Call_BPF_process
           (pScratch (inst m) + sint (NrChannels (Params (inst m)) * ucast NrFrames))
           (pScratch (inst m) + sint (NrChannels (Params (inst m)) * ucast NrFrames))
           (unat NrFrames),
         Call_AGC_MIX_VOL (pScratch (inst m))
           (pScratch (inst m) + sint (NrChannels (Params (inst m)) * ucast NrFrames))
           (pScratch (inst m)) NrFrames (NrChannels (Params (inst m)))]
      else [Call_memset (pScratch (inst m)) (NrChannels (Params (inst m)) * ucast NrFrames)]) @
     [if BypassVolume_active env (inst m)
      then Call_LVC_MixSoft_Mc pInData
             (pScratch (inst m) + sint (NrChannels (Params (inst m)) * ucast NrFrames))
             NrFrames (ucast (NrChannels (Params (inst m))))
      else Call_memset
             (pScratch (inst m) + sint (NrChannels (Params (inst m)) * ucast NrFrames))
             (NrChannels (Params (inst m)) * ucast NrFrames),
      Call_LVC_MixSoft_2Mc (pScratch (inst m))
        (pScratch (inst m) + sint (NrChannels (Params (inst m)) * ucast NrFrames))
        pOutData NrFrames (ucast (NrChannels (Params (inst m))))]"
  using assms
  by (simp add: LVDBE_Process_success calls_Mix_paths calls_BypassVolume_path calls_DBE_path)

lemma BypassVolume_DBE_path [simp]:
  "BypassVolume (pData (inst (DBE_path env pInData NrFrames NrCh NrSamples pScr pMono m))) =
     BypassVolume (pData (inst m))"
  by (simp add: inst_DBE_path)

text \<open>
  The memory and the sub-objects a successful call leaves, in terms of what the
  collaborators return: \<open>hE\<close> is the memory after the first block of the routine,
  \<open>hV\<close> the memory after the second.
\<close>

lemma LVDBE_Process_result:
  fixes env :: "('f, 'bq, 'agc, 'st) collaborators"
    and m :: "('f, 'bq, 'agc, 'st) machine"
    and NrFrames :: LVM_UINT16
    and pInData pOutData :: addr
    and NrCh NrSamples pScr pMono h1 hpf h2 h3 bpf agc hE vol hV mix r
  defines "NrCh \<equiv> NrChannels (Params (inst m))"
    and "NrSamples \<equiv> NrCh * ucast NrFrames"
    and "pScr \<equiv> pScratch (inst m)"
    and "pMono \<equiv> pScr + sint NrSamples"
    and "h1 \<equiv> Copy_Float env pInData pScr (ucast NrSamples) (heap m)"
    and "hpf \<equiv> BiquadFilter_process env (pHPFBiquad (inst m)) pScr pScr (unat NrFrames) h1"
    and "h2 \<equiv> if HPFSelect (Params (inst m)) = LVDBE_HPF_ON then snd hpf else h1"
    and "h3 \<equiv> FromMcToMono_Float env pScr pMono NrFrames (ucast NrCh) h2"
    and "bpf \<equiv> BiquadFilter_process env (pBPFBiquad (inst m)) pMono pMono (unat NrFrames) h3"
    and "agc \<equiv> AGC_MIX_VOL_Mc1Mon_D32_WRA env (AGCInstance (pData (inst m)))
                  pScr pMono pScr NrFrames NrCh (snd bpf)"
    and "hE \<equiv> if DBE_active env (inst m) then snd agc
               else memset_zero (float_zero env) pScr (memset_cells NrSamples) (heap m)"
    and "vol \<equiv> LVC_MixSoft_Mc_D16C31_SAT env (BypassVolume (pData (inst m)))
                  pInData pMono NrFrames (ucast NrCh) hE"
    and "hV \<equiv> if BypassVolume_active env (inst m) then snd vol
               else memset_zero (float_zero env) pMono (memset_cells NrSamples) hE"
    and "mix \<equiv> LVC_MixSoft_2Mc_D16C31_SAT env (BypassMixer (pData (inst m)))
                  pScr pMono pOutData NrFrames (ucast NrCh) hV"
    and "r \<equiv> snd (LVDBE_Process env pInData pOutData NrFrames m)"
  assumes guard: "uint NrFrames \<le> MaxBlockSize (Capabilities (inst m))"
  shows "heap r = snd mix"
    and "BypassMixer (pData (inst r)) = fst mix"
    and "BypassVolume (pData (inst r)) =
           (if BypassVolume_active env (inst m) then fst vol
            else BypassVolume (pData (inst m)))"
    and "AGCInstance (pData (inst r)) =
           (if DBE_active env (inst m) then fst agc else AGCInstance (pData (inst m)))"
    and "pBPFBiquad (inst r) =
           (if DBE_active env (inst m) then fst bpf else pBPFBiquad (inst m))"
    and "pHPFBiquad (inst r) =
           (if DBE_active env (inst m) \<and> HPFSelect (Params (inst m)) = LVDBE_HPF_ON
            then fst hpf else pHPFBiquad (inst m))"
    and "Params (inst r) = Params (inst m)"
    and "Capabilities (inst r) = Capabilities (inst m)"
    and "pScratch (inst r) = pScratch (inst m)"
proof -
  have r: "r = Mix_paths env pOutData NrFrames NrCh pScr pMono
                 (BypassVolume_path env pInData NrFrames NrCh NrSamples pMono
                    (DBE_path env pInData NrFrames NrCh NrSamples pScr pMono m))"
    unfolding r_def NrCh_def NrSamples_def pScr_def pMono_def
    by (simp only: LVDBE_Process_success [OF guard] snd_conv)
  have hE: "heap (DBE_path env pInData NrFrames NrCh NrSamples pScr pMono m) = hE"
    unfolding hE_def agc_def bpf_def h3_def h2_def hpf_def h1_def
    by (simp add: heap_DBE_path)
  have iE: "inst (DBE_path env pInData NrFrames NrCh NrSamples pScr pMono m) =
      (if DBE_active env (inst m) then
         (inst m)\<lparr>pHPFBiquad := (if HPFSelect (Params (inst m)) = LVDBE_HPF_ON
                                   then fst hpf else pHPFBiquad (inst m)),
                   pBPFBiquad := fst bpf,
                   pData := (pData (inst m))\<lparr>AGCInstance := fst agc\<rparr>\<rparr>
       else inst m)"
    unfolding agc_def bpf_def h3_def h2_def hpf_def h1_def
    by (simp add: inst_DBE_path)
  have hV: "heap (BypassVolume_path env pInData NrFrames NrCh NrSamples pMono
                    (DBE_path env pInData NrFrames NrCh NrSamples pScr pMono m)) = hV"
    unfolding hV_def vol_def
    by (simp add: heap_BypassVolume_path hE)
  have iV: "inst (BypassVolume_path env pInData NrFrames NrCh NrSamples pMono
                    (DBE_path env pInData NrFrames NrCh NrSamples pScr pMono m)) =
      (if BypassVolume_active env (inst m)
       then (inst (DBE_path env pInData NrFrames NrCh NrSamples pScr pMono m))
              \<lparr>pData := (pData (inst (DBE_path env pInData NrFrames NrCh NrSamples pScr
                                           pMono m)))\<lparr>BypassVolume := fst vol\<rparr>\<rparr>
       else inst (DBE_path env pInData NrFrames NrCh NrSamples pScr pMono m))"
    unfolding vol_def
    by (simp add: inst_BypassVolume_path hE)
  show "heap r = snd mix"
    unfolding mix_def by (simp add: r heap_Mix_paths hV iV iE)
  show "BypassMixer (pData (inst r)) = fst mix"
    unfolding mix_def by (simp add: r inst_Mix_paths hV iV iE)
  show "BypassVolume (pData (inst r)) =
           (if BypassVolume_active env (inst m) then fst vol
            else BypassVolume (pData (inst m)))"
    by (simp add: r inst_Mix_paths iV iE)
  show "AGCInstance (pData (inst r)) =
           (if DBE_active env (inst m) then fst agc else AGCInstance (pData (inst m)))"
    by (simp add: r inst_Mix_paths iV iE)
  show "pBPFBiquad (inst r) =
           (if DBE_active env (inst m) then fst bpf else pBPFBiquad (inst m))"
    by (simp add: r inst_Mix_paths iV iE)
  show "pHPFBiquad (inst r) =
           (if DBE_active env (inst m) \<and> HPFSelect (Params (inst m)) = LVDBE_HPF_ON
            then fst hpf else pHPFBiquad (inst m))"
    by (simp add: r inst_Mix_paths iV iE)
  show "Params (inst r) = Params (inst m)"
    by (simp add: r inst_Mix_paths iV iE)
  show "Capabilities (inst r) = Capabilities (inst m)"
    by (simp add: r inst_Mix_paths iV iE)
  show "pScratch (inst r) = pScratch (inst m)"
    by (simp add: r inst_Mix_paths iV iE)
qed

text \<open>
  C2. In a successful call the enhanced path is computed exactly when the operating mode
  is ON or stream 0 of the bypass mixer has a current gain that differs from its target.
  It is then computed in this order: the copy of the input block to the scratch region
  (leaving the memory \<open>h1\<close>), the high-pass filter in place on that region if and only
  if it is selected (\<open>h2\<close>), the downmix of that region to the mono region (\<open>h3\<close>),
  the band-pass filter in place on the mono region, and the AGC-and-mix from both regions
  to the scratch region; the memory \<open>hE\<close> that the AGC returns is the one the rest of
  the call works on, and the filters and the AGC are left in the states these calls
  return. Otherwise none of these collaborators is invoked, their states stay as they
  were, and \<open>hE\<close> is the memory of the caller with the scratch region zero-filled. In
  either case the bypass-volume block and the final mixer follow, and the memory the call
  returns is what the final mixer makes of \<open>hE\<close> after the bypass-volume block.
\<close>

theorem C2_enhanced_path:
  fixes env :: "('f, 'bq, 'agc, 'st) collaborators"
    and m :: "('f, 'bq, 'agc, 'st) machine"
    and NrFrames :: LVM_UINT16
    and pInData pOutData :: addr
    and NrCh NrSamples pScr pMono enhanced h1 hpf h2 h3 bpf agc hE hV r
  defines "NrCh \<equiv> NrChannels (Params (inst m))"
    and "NrSamples \<equiv> NrCh * ucast NrFrames"
    and "pScr \<equiv> pScratch (inst m)"
    and "pMono \<equiv> pScr + sint NrSamples"
    and "enhanced \<equiv>
           OperatingMode (Params (inst m)) = LVDBE_ON \<or>
           float_ne env
             (LVC_Mixer_GetCurrent env (MixerStream0 (BypassMixer (pData (inst m)))))
             (LVC_Mixer_GetTarget env (MixerStream0 (BypassMixer (pData (inst m)))))"
    and "h1 \<equiv> Copy_Float env pInData pScr (ucast NrSamples) (heap m)"
    and "hpf \<equiv> BiquadFilter_process env (pHPFBiquad (inst m)) pScr pScr (unat NrFrames) h1"
    and "h2 \<equiv> if HPFSelect (Params (inst m)) = LVDBE_HPF_ON then snd hpf else h1"
    and "h3 \<equiv> FromMcToMono_Float env pScr pMono NrFrames (ucast NrCh) h2"
    and "bpf \<equiv> BiquadFilter_process env (pBPFBiquad (inst m)) pMono pMono (unat NrFrames) h3"
    and "agc \<equiv> AGC_MIX_VOL_Mc1Mon_D32_WRA env (AGCInstance (pData (inst m)))
                  pScr pMono pScr NrFrames NrCh (snd bpf)"
    and "hE \<equiv> if enhanced then snd agc
               else memset_zero (float_zero env) pScr (memset_cells NrSamples) (heap m)"
    and "hV \<equiv>
           if OperatingMode (Params (inst m)) = LVDBE_OFF \<or>
              float_ne env
                (LVC_Mixer_GetCurrent env (MixerStream1 (BypassMixer (pData (inst m)))))
                (LVC_Mixer_GetTarget env (MixerStream1 (BypassMixer (pData (inst m)))))
           then snd (LVC_MixSoft_Mc_D16C31_SAT env (BypassVolume (pData (inst m)))
                       pInData pMono NrFrames (ucast NrCh) hE)
           else memset_zero (float_zero env) pMono (memset_cells NrSamples) hE"
    and "r \<equiv> snd (LVDBE_Process env pInData pOutData NrFrames m)"
  assumes guard: "uint NrFrames \<le> MaxBlockSize (Capabilities (inst m))"
  shows "(\<exists>v. (v = Call_LVC_MixSoft_Mc pInData pMono NrFrames (ucast NrCh) \<or>
               v = Call_memset pMono NrSamples) \<and>
           calls r =
             calls m @
             (if enhanced then
                [Call_Copy_Float pInData pScr (ucast NrSamples)] @
                (if HPFSelect (Params (inst m)) = LVDBE_HPF_ON
                 then [Call_HPF_process pScr pScr (unat NrFrames)] else []) @
                [Call_FromMcToMono_Float pScr pMono NrFrames (ucast NrCh),
                 Call_BPF_process pMono pMono (unat NrFrames),
                 Call_AGC_MIX_VOL pScr pMono pScr NrFrames NrCh]
              else [Call_memset pScr NrSamples]) @
             [v, Call_LVC_MixSoft_2Mc pScr pMono pOutData NrFrames (ucast NrCh)]) \<and>
         pHPFBiquad (inst r) =
           (if enhanced \<and> HPFSelect (Params (inst m)) = LVDBE_HPF_ON
            then fst hpf else pHPFBiquad (inst m)) \<and>
         pBPFBiquad (inst r) = (if enhanced then fst bpf else pBPFBiquad (inst m)) \<and>
         AGCInstance (pData (inst r)) =
           (if enhanced then fst agc else AGCInstance (pData (inst m))) \<and>
         heap r =
           snd (LVC_MixSoft_2Mc_D16C31_SAT env (BypassMixer (pData (inst m)))
                  pScr pMono pOutData NrFrames (ucast NrCh) hV) \<and>
         (\<not> enhanced \<longrightarrow>
            (\<forall>a. pScr \<le> a \<and> a < pScr + sint NrSamples \<longrightarrow> hE a = float_zero env))"
proof (intro conjI)
  note defs = r_def hV_def hE_def agc_def bpf_def h3_def h2_def hpf_def h1_def enhanced_def
    pMono_def pScr_def NrSamples_def NrCh_def
  note res = LVDBE_Process_result [OF guard, of env pInData pOutData,
      unfolded DBE_active_def BypassVolume_active_def]
  show "\<exists>v. (v = Call_LVC_MixSoft_Mc pInData pMono NrFrames (ucast NrCh) \<or>
               v = Call_memset pMono NrSamples) \<and>
           calls r =
             calls m @
             (if enhanced then
                [Call_Copy_Float pInData pScr (ucast NrSamples)] @
                (if HPFSelect (Params (inst m)) = LVDBE_HPF_ON
                 then [Call_HPF_process pScr pScr (unat NrFrames)] else []) @
                [Call_FromMcToMono_Float pScr pMono NrFrames (ucast NrCh),
                 Call_BPF_process pMono pMono (unat NrFrames),
                 Call_AGC_MIX_VOL pScr pMono pScr NrFrames NrCh]
              else [Call_memset pScr NrSamples]) @
             [v, Call_LVC_MixSoft_2Mc pScr pMono pOutData NrFrames (ucast NrCh)]"
    unfolding r_def enhanced_def new_calls_LVDBE_Process [OF guard] NrSamples_def pMono_def
      NrCh_def pScr_def
    by (simp add: DBE_active_def)
  show "pHPFBiquad (inst r) =
           (if enhanced \<and> HPFSelect (Params (inst m)) = LVDBE_HPF_ON
            then fst hpf else pHPFBiquad (inst m))"
    unfolding defs by (fact res(6))
  show "pBPFBiquad (inst r) = (if enhanced then fst bpf else pBPFBiquad (inst m))"
    unfolding defs by (fact res(5))
  show "AGCInstance (pData (inst r)) =
           (if enhanced then fst agc else AGCInstance (pData (inst m)))"
    unfolding defs by (fact res(4))
  show "heap r =
           snd (LVC_MixSoft_2Mc_D16C31_SAT env (BypassMixer (pData (inst m)))
                  pScr pMono pOutData NrFrames (ucast NrCh) hV)"
    unfolding defs by (fact res(1))
  show "\<not> enhanced \<longrightarrow>
            (\<forall>a. pScr \<le> a \<and> a < pScr + sint NrSamples \<longrightarrow> hE a = float_zero env)"
  proof (cases "0 \<le> sint NrSamples")
    case True
    then show ?thesis
      by (simp add: hE_def memset_zero_def memset_cells_nonneg)
  next
    case False
    then show ?thesis
      by auto
  qed
qed

theorem C2_enhanced_path_witness:
  "uint (2 :: LVM_UINT16) \<le> MaxBlockSize (Capabilities (inst
      (example_machine LVDBE_ON LVDBE_HPF_ON 2 4
         \<lparr>Current = 1, Target = 1\<rparr> \<lparr>Current = 0, Target = 0\<rparr>))) \<and>
   calls (snd (LVDBE_Process ref_env 0 100 2
     (example_machine LVDBE_ON LVDBE_HPF_ON 2 4
        \<lparr>Current = 1, Target = 1\<rparr> \<lparr>Current = 0, Target = 0\<rparr>))) =
     [Call_Copy_Float 0 1000 4, Call_HPF_process 1000 1000 2,
      Call_FromMcToMono_Float 1000 1004 2 2, Call_BPF_process 1004 1004 2,
      Call_AGC_MIX_VOL 1000 1004 1000 2 2, Call_memset 1004 4,
      Call_LVC_MixSoft_2Mc 1000 1004 100 2 2] \<and>
   pHPFBiquad (inst (snd (LVDBE_Process ref_env 0 100 2
     (example_machine LVDBE_ON LVDBE_HPF_ON 2 4
        \<lparr>Current = 1, Target = 1\<rparr> \<lparr>Current = 0, Target = 0\<rparr>)))) = (2, 2) \<and>
   pBPFBiquad (inst (snd (LVDBE_Process ref_env 0 100 2
     (example_machine LVDBE_ON LVDBE_HPF_ON 2 4
        \<lparr>Current = 1, Target = 1\<rparr> \<lparr>Current = 0, Target = 0\<rparr>)))) = (1, 2) \<and>
   map (heap (example_machine LVDBE_ON LVDBE_HPF_ON 2 4
        \<lparr>Current = 1, Target = 1\<rparr> \<lparr>Current = 0, Target = 0\<rparr>))
     [0, 1, 2, 3, 1000, 1001, 1002, 1003, 1004, 1005] =
     [5, 7, 9, 11, - 1001, - 1002, - 1003, - 1004, - 1005, - 1006] \<and>
   map (heap (snd (LVDBE_Process ref_env 0 100 2
     (example_machine LVDBE_ON LVDBE_HPF_ON 2 4
        \<lparr>Current = 1, Target = 1\<rparr> \<lparr>Current = 0, Target = 0\<rparr>))))
     [1000, 1001, 1002, 1003, 100, 101, 102, 103] = [58, 62, 98, 102, 58, 62, 98, 102] \<and>
   calls (snd (LVDBE_Process ref_env 0 100 2
     (example_machine LVDBE_ON LVDBE_HPF_OFF 2 4
        \<lparr>Current = 1, Target = 1\<rparr> \<lparr>Current = 0, Target = 0\<rparr>))) =
     [Call_Copy_Float 0 1000 4,
      Call_FromMcToMono_Float 1000 1004 2 2, Call_BPF_process 1004 1004 2,
      Call_AGC_MIX_VOL 1000 1004 1000 2 2, Call_memset 1004 4,
      Call_LVC_MixSoft_2Mc 1000 1004 100 2 2] \<and>
   pHPFBiquad (inst (snd (LVDBE_Process ref_env 0 100 2
     (example_machine LVDBE_ON LVDBE_HPF_OFF 2 4
        \<lparr>Current = 1, Target = 1\<rparr> \<lparr>Current = 0, Target = 0\<rparr>)))) = (2, 0) \<and>
   map (heap (snd (LVDBE_Process ref_env 0 100 2
     (example_machine LVDBE_ON LVDBE_HPF_OFF 2 4
        \<lparr>Current = 1, Target = 1\<rparr> \<lparr>Current = 0, Target = 0\<rparr>))))
     [1000, 1001, 1002, 1003, 100, 101, 102, 103] = [29, 31, 49, 51, 29, 31, 49, 51] \<and>
   calls (snd (LVDBE_Process ref_env 0 100 2
     (example_machine LVDBE_OFF LVDBE_HPF_ON 2 4
        \<lparr>Current = 0, Target = 0\<rparr> \<lparr>Current = 1, Target = 1\<rparr>))) =
     [Call_memset 1000 4, Call_LVC_MixSoft_Mc 0 1004 2 2,
      Call_LVC_MixSoft_2Mc 1000 1004 100 2 2] \<and>
   pHPFBiquad (inst (snd (LVDBE_Process ref_env 0 100 2
     (example_machine LVDBE_OFF LVDBE_HPF_ON 2 4
        \<lparr>Current = 0, Target = 0\<rparr> \<lparr>Current = 1, Target = 1\<rparr>)))) = (2, 0) \<and>
   pBPFBiquad (inst (snd (LVDBE_Process ref_env 0 100 2
     (example_machine LVDBE_OFF LVDBE_HPF_ON 2 4
        \<lparr>Current = 0, Target = 0\<rparr> \<lparr>Current = 1, Target = 1\<rparr>)))) = (1, 0) \<and>
   map (heap (snd (LVDBE_Process ref_env 0 100 2
     (example_machine LVDBE_OFF LVDBE_HPF_ON 2 4
        \<lparr>Current = 0, Target = 0\<rparr> \<lparr>Current = 1, Target = 1\<rparr>))))
     [1000, 1001, 1002, 1003] = [0, 0, 0, 0]"
proof -
  let ?on = "example_machine LVDBE_ON LVDBE_HPF_ON 2 4
        \<lparr>Current = 1, Target = 1\<rparr> \<lparr>Current = 0, Target = 0\<rparr>"
  let ?nohpf = "example_machine LVDBE_ON LVDBE_HPF_OFF 2 4
        \<lparr>Current = 1, Target = 1\<rparr> \<lparr>Current = 0, Target = 0\<rparr>"
  let ?off = "example_machine LVDBE_OFF LVDBE_HPF_ON 2 4
        \<lparr>Current = 0, Target = 0\<rparr> \<lparr>Current = 1, Target = 1\<rparr>"
  have guard: "uint (2 :: LVM_UINT16) \<le> MaxBlockSize (Capabilities (inst ?on))"
    "uint (2 :: LVM_UINT16) \<le> MaxBlockSize (Capabilities (inst ?nohpf))"
    "uint (2 :: LVM_UINT16) \<le> MaxBlockSize (Capabilities (inst ?off))"
    by (simp_all add: example_machine_def example_instance_def)
  have on: "calls (snd (LVDBE_Process ref_env 0 100 2 ?on)) =
     [Call_Copy_Float 0 1000 4, Call_HPF_process 1000 1000 2,
      Call_FromMcToMono_Float 1000 1004 2 2, Call_BPF_process 1004 1004 2,
      Call_AGC_MIX_VOL 1000 1004 1000 2 2, Call_memset 1004 4,
      Call_LVC_MixSoft_2Mc 1000 1004 100 2 2]"
    "pHPFBiquad (inst (snd (LVDBE_Process ref_env 0 100 2 ?on))) = (2, 2)"
    "pBPFBiquad (inst (snd (LVDBE_Process ref_env 0 100 2 ?on))) = (1, 2)"
    "map (heap ?on) [0, 1, 2, 3, 1000, 1001, 1002, 1003, 1004, 1005] =
       [5, 7, 9, 11, - 1001, - 1002, - 1003, - 1004, - 1005, - 1006]"
    "map (heap (snd (LVDBE_Process ref_env 0 100 2 ?on)))
       [1000, 1001, 1002, 1003, 100, 101, 102, 103] = [58, 62, 98, 102, 58, 62, 98, 102]"
    by code_simp+
  have nohpf: "calls (snd (LVDBE_Process ref_env 0 100 2 ?nohpf)) =
     [Call_Copy_Float 0 1000 4,
      Call_FromMcToMono_Float 1000 1004 2 2, Call_BPF_process 1004 1004 2,
      Call_AGC_MIX_VOL 1000 1004 1000 2 2, Call_memset 1004 4,
      Call_LVC_MixSoft_2Mc 1000 1004 100 2 2]"
    "pHPFBiquad (inst (snd (LVDBE_Process ref_env 0 100 2 ?nohpf))) = (2, 0)"
    "map (heap (snd (LVDBE_Process ref_env 0 100 2 ?nohpf)))
       [1000, 1001, 1002, 1003, 100, 101, 102, 103] = [29, 31, 49, 51, 29, 31, 49, 51]"
    by code_simp+
  have off: "calls (snd (LVDBE_Process ref_env 0 100 2 ?off)) =
     [Call_memset 1000 4, Call_LVC_MixSoft_Mc 0 1004 2 2,
      Call_LVC_MixSoft_2Mc 1000 1004 100 2 2]"
    "pHPFBiquad (inst (snd (LVDBE_Process ref_env 0 100 2 ?off))) = (2, 0)"
    "pBPFBiquad (inst (snd (LVDBE_Process ref_env 0 100 2 ?off))) = (1, 0)"
    "map (heap (snd (LVDBE_Process ref_env 0 100 2 ?off))) [1000, 1001, 1002, 1003] =
       [0, 0, 0, 0]"
    by code_simp+
  show ?thesis
    using C2_enhanced_path [OF guard(1), where env = ref_env and pInData = 0 and pOutData = 100]
      C2_enhanced_path [OF guard(2), where env = ref_env and pInData = 0 and pOutData = 100]
      C2_enhanced_path [OF guard(3), where env = ref_env and pInData = 0 and pOutData = 100]
    by (simp (no_asm) only: guard on nohpf off simp_thms)
qed

text \<open>
  C3. In a successful call the bypass-volume path is computed exactly when the operating
  mode is OFF or stream 1 of the bypass mixer has a current gain that differs from its
  target: the single-input mixer is then invoked on the bypass-volume stream, from the raw
  input block into the region at \<open>pScratchVol\<close> (the address of the mono region), on
  the memory \<open>hE\<close> that the first block of the routine left, and the stream and the
  memory it returns (\<open>hV\<close>) are the ones the call goes on with. Otherwise the mixer is
  not invoked, the stream stays as it was, and \<open>hV\<close> is \<open>hE\<close> with that region
  zero-filled. Whichever branches ran, the last invocation is the two-input mixer, on the
  bypass mixer, from the scratch region and the region at \<open>pScratchVol\<close> to the output
  block, on the memory \<open>hV\<close>; the memory and the bypass mixer the call returns are those
  this mixer returns. No mixer is invoked before.
\<close>

theorem C3_bypass_volume_path_and_final_mix:
  fixes env :: "('f, 'bq, 'agc, 'st) collaborators"
    and m :: "('f, 'bq, 'agc, 'st) machine"
    and NrFrames :: LVM_UINT16
    and pInData pOutData :: addr
    and NrCh NrSamples pScr pScratchVol h1 h2 h3 h4 hE volume vol hV mix r
  defines "NrCh \<equiv> NrChannels (Params (inst m))"
    and "NrSamples \<equiv> NrCh * ucast NrFrames"
    and "pScr \<equiv> pScratch (inst m)"
    and "pScratchVol \<equiv> pScr + sint NrSamples"
    and "h1 \<equiv> Copy_Float env pInData pScr (ucast NrSamples) (heap m)"
    and "h2 \<equiv> if HPFSelect (Params (inst m)) = LVDBE_HPF_ON
               then snd (BiquadFilter_process env (pHPFBiquad (inst m)) pScr pScr
                           (unat NrFrames) h1)
               else h1"
    and "h3 \<equiv> FromMcToMono_Float env pScr pScratchVol NrFrames (ucast NrCh) h2"
    and "h4 \<equiv> snd (BiquadFilter_process env (pBPFBiquad (inst m)) pScratchVol pScratchVol
                      (unat NrFrames) h3)"
    and "hE \<equiv>
           if OperatingMode (Params (inst m)) = LVDBE_ON \<or>
              float_ne env
                (LVC_Mixer_GetCurrent env (MixerStream0 (BypassMixer (pData (inst m)))))
                (LVC_Mixer_GetTarget env (MixerStream0 (BypassMixer (pData (inst m)))))
           then snd (AGC_MIX_VOL_Mc1Mon_D32_WRA env (AGCInstance (pData (inst m)))
                       pScr pScratchVol pScr NrFrames NrCh h4)
           else memset_zero (float_zero env) pScr (memset_cells NrSamples) (heap m)"
    and "volume \<equiv>
           OperatingMode (Params (inst m)) = LVDBE_OFF \<or>
           float_ne env
             (LVC_Mixer_GetCurrent env (MixerStream1 (BypassMixer (pData (inst m)))))
             (LVC_Mixer_GetTarget env (MixerStream1 (BypassMixer (pData (inst m)))))"
    and "vol \<equiv> LVC_MixSoft_Mc_D16C31_SAT env (BypassVolume (pData (inst m)))
                  pInData pScratchVol NrFrames (ucast NrCh) hE"
    and "hV \<equiv> if volume then snd vol
               else memset_zero (float_zero env) pScratchVol (memset_cells NrSamples) hE"
    and "mix \<equiv> LVC_MixSoft_2Mc_D16C31_SAT env (BypassMixer (pData (inst m)))
                  pScr pScratchVol pOutData NrFrames (ucast NrCh) hV"
    and "r \<equiv> snd (LVDBE_Process env pInData pOutData NrFrames m)"
  assumes guard: "uint NrFrames \<le> MaxBlockSize (Capabilities (inst m))"
  shows "(\<exists>pre.
           (\<forall>src dst f c. Call_LVC_MixSoft_Mc src dst f c \<notin> set pre) \<and>
           (\<forall>src1 src2 dst f c. Call_LVC_MixSoft_2Mc src1 src2 dst f c \<notin> set pre) \<and>
           calls r =
             calls m @ pre @
             [if volume then Call_LVC_MixSoft_Mc pInData pScratchVol NrFrames (ucast NrCh)
              else Call_memset pScratchVol NrSamples,
              Call_LVC_MixSoft_2Mc pScr pScratchVol pOutData NrFrames (ucast NrCh)]) \<and>
         BypassVolume (pData (inst r)) =
           (if volume then fst vol else BypassVolume (pData (inst m))) \<and>
         (\<not> volume \<longrightarrow>
            (\<forall>a. pScratchVol \<le> a \<and> a < pScratchVol + sint NrSamples \<longrightarrow>
                 hV a = float_zero env)) \<and>
         heap r = snd mix \<and>
         BypassMixer (pData (inst r)) = fst mix"
proof (intro conjI)
  note defs = r_def mix_def hV_def vol_def volume_def hE_def h4_def h3_def h2_def h1_def
    pScratchVol_def pScr_def NrSamples_def NrCh_def
  note res = LVDBE_Process_result [OF guard, of env pInData pOutData,
      unfolded DBE_active_def BypassVolume_active_def]
  let ?pre = "if DBE_active env (inst m) then
        [Call_Copy_Float pInData pScr (ucast NrSamples)] @
        (if HPFSelect (Params (inst m)) = LVDBE_HPF_ON
         then [Call_HPF_process pScr pScr (unat NrFrames)] else []) @
        [Call_FromMcToMono_Float pScr pScratchVol NrFrames (ucast NrCh),
         Call_BPF_process pScratchVol pScratchVol (unat NrFrames),
         Call_AGC_MIX_VOL pScr pScratchVol pScr NrFrames NrCh]
      else [Call_memset pScr NrSamples]"
  have no_Mc: "\<forall>src dst f c. Call_LVC_MixSoft_Mc src dst f c \<notin> set ?pre"
    by simp
  have no_2Mc: "\<forall>src1 src2 dst f c. Call_LVC_MixSoft_2Mc src1 src2 dst f c \<notin> set ?pre"
    by simp
  have "calls r =
          calls m @ ?pre @
          [if volume then Call_LVC_MixSoft_Mc pInData pScratchVol NrFrames (ucast NrCh)
           else Call_memset pScratchVol NrSamples,
           Call_LVC_MixSoft_2Mc pScr pScratchVol pOutData NrFrames (ucast NrCh)]"
    unfolding r_def volume_def new_calls_LVDBE_Process [OF guard] NrSamples_def
      pScratchVol_def NrCh_def pScr_def BypassVolume_active_def
    by simp
  with no_Mc no_2Mc
  show "\<exists>pre.
           (\<forall>src dst f c. Call_LVC_MixSoft_Mc src dst f c \<notin> set pre) \<and>
           (\<forall>src1 src2 dst f c. Call_LVC_MixSoft_2Mc src1 src2 dst f c \<notin> set pre) \<and>
           calls r =
             calls m @ pre @
             [if volume then Call_LVC_MixSoft_Mc pInData pScratchVol NrFrames (ucast NrCh)
              else Call_memset pScratchVol NrSamples,
              Call_LVC_MixSoft_2Mc pScr pScratchVol pOutData NrFrames (ucast NrCh)]"
    by blast
  show "BypassVolume (pData (inst r)) =
           (if volume then fst vol else BypassVolume (pData (inst m)))"
    unfolding defs by (fact res(3))
  show "\<not> volume \<longrightarrow>
            (\<forall>a. pScratchVol \<le> a \<and> a < pScratchVol + sint NrSamples \<longrightarrow>
                 hV a = float_zero env)"
  proof (cases "0 \<le> sint NrSamples")
    case True
    then show ?thesis
      by (simp add: hV_def memset_zero_def memset_cells_nonneg)
  next
    case False
    then show ?thesis
      by auto
  qed
  show "heap r = snd mix"
    unfolding defs by (fact res(1))
  show "BypassMixer (pData (inst r)) = fst mix"
    unfolding defs by (fact res(2))
qed

theorem C3_bypass_volume_path_and_final_mix_witness:
  "uint (2 :: LVM_UINT16) \<le> MaxBlockSize (Capabilities (inst
      (example_machine LVDBE_OFF LVDBE_HPF_OFF 2 4
         \<lparr>Current = 1, Target = 0\<rparr> \<lparr>Current = 0, Target = 1\<rparr>))) \<and>
   calls (snd (LVDBE_Process ref_env 0 100 2
     (example_machine LVDBE_OFF LVDBE_HPF_OFF 2 4
        \<lparr>Current = 1, Target = 0\<rparr> \<lparr>Current = 0, Target = 1\<rparr>))) =
     [Call_Copy_Float 0 1000 4, Call_FromMcToMono_Float 1000 1004 2 2,
      Call_BPF_process 1004 1004 2, Call_AGC_MIX_VOL 1000 1004 1000 2 2,
      Call_LVC_MixSoft_Mc 0 1004 2 2, Call_LVC_MixSoft_2Mc 1000 1004 100 2 2] \<and>
   BypassVolume (pData (inst
     (example_machine LVDBE_OFF LVDBE_HPF_OFF 2 4
        \<lparr>Current = 1, Target = 0\<rparr> \<lparr>Current = 0, Target = 1\<rparr>))) =
     \<lparr>Current = 2, Target = 1\<rparr> \<and>
   pData (inst (snd (LVDBE_Process ref_env 0 100 2
     (example_machine LVDBE_OFF LVDBE_HPF_OFF 2 4
        \<lparr>Current = 1, Target = 0\<rparr> \<lparr>Current = 0, Target = 1\<rparr>)))) =
     \<lparr>AGCInstance = 1, BypassVolume = \<lparr>Current = 1, Target = 1\<rparr>,
      BypassMixer = \<lparr>MixerStream0 = \<lparr>Current = 0, Target = 0\<rparr>,
                     MixerStream1 = \<lparr>Current = 1, Target = 1\<rparr>\<rparr>\<rparr> \<and>
   map (heap (snd (LVDBE_Process ref_env 0 100 2
     (example_machine LVDBE_OFF LVDBE_HPF_OFF 2 4
        \<lparr>Current = 1, Target = 0\<rparr> \<lparr>Current = 0, Target = 1\<rparr>))))
     [1000, 1001, 1002, 1003, 1004, 1005, 1006, 1007, 100, 101, 102, 103] =
     [29, 31, 49, 51, 10, 14, 18, 22, 29, 31, 49, 51] \<and>
   calls (snd (LVDBE_Process ref_env 0 100 2
     (example_machine LVDBE_ON LVDBE_HPF_OFF 2 4
        \<lparr>Current = 1, Target = 1\<rparr> \<lparr>Current = 0, Target = 0\<rparr>))) =
     [Call_Copy_Float 0 1000 4, Call_FromMcToMono_Float 1000 1004 2 2,
      Call_BPF_process 1004 1004 2, Call_AGC_MIX_VOL 1000 1004 1000 2 2,
      Call_memset 1004 4, Call_LVC_MixSoft_2Mc 1000 1004 100 2 2] \<and>
   BypassVolume (pData (inst (snd (LVDBE_Process ref_env 0 100 2
     (example_machine LVDBE_ON LVDBE_HPF_OFF 2 4
        \<lparr>Current = 1, Target = 1\<rparr> \<lparr>Current = 0, Target = 0\<rparr>))))) =
     \<lparr>Current = 2, Target = 1\<rparr> \<and>
   map (heap (snd (LVDBE_Process ref_env 0 100 2
     (example_machine LVDBE_ON LVDBE_HPF_OFF 2 4
        \<lparr>Current = 1, Target = 1\<rparr> \<lparr>Current = 0, Target = 0\<rparr>))))
     [1004, 1005, 1006, 1007, 100, 101, 102, 103] = [0, 0, 0, 0, 29, 31, 49, 51]"
proof -
  let ?fade = "example_machine LVDBE_OFF LVDBE_HPF_OFF 2 4
        \<lparr>Current = 1, Target = 0\<rparr> \<lparr>Current = 0, Target = 1\<rparr>"
  let ?on = "example_machine LVDBE_ON LVDBE_HPF_OFF 2 4
        \<lparr>Current = 1, Target = 1\<rparr> \<lparr>Current = 0, Target = 0\<rparr>"
  have guard: "uint (2 :: LVM_UINT16) \<le> MaxBlockSize (Capabilities (inst ?fade))"
    "uint (2 :: LVM_UINT16) \<le> MaxBlockSize (Capabilities (inst ?on))"
    by (simp_all add: example_machine_def example_instance_def)
  have fade: "calls (snd (LVDBE_Process ref_env 0 100 2 ?fade)) =
     [Call_Copy_Float 0 1000 4, Call_FromMcToMono_Float 1000 1004 2 2,
      Call_BPF_process 1004 1004 2, Call_AGC_MIX_VOL 1000 1004 1000 2 2,
      Call_LVC_MixSoft_Mc 0 1004 2 2, Call_LVC_MixSoft_2Mc 1000 1004 100 2 2]"
    "BypassVolume (pData (inst ?fade)) = \<lparr>Current = 2, Target = 1\<rparr>"
    "pData (inst (snd (LVDBE_Process ref_env 0 100 2 ?fade))) =
     \<lparr>AGCInstance = 1, BypassVolume = \<lparr>Current = 1, Target = 1\<rparr>,
      BypassMixer = \<lparr>MixerStream0 = \<lparr>Current = 0, Target = 0\<rparr>,
                     MixerStream1 = \<lparr>Current = 1, Target = 1\<rparr>\<rparr>\<rparr>"
    "map (heap (snd (LVDBE_Process ref_env 0 100 2 ?fade)))
       [1000, 1001, 1002, 1003, 1004, 1005, 1006, 1007, 100, 101, 102, 103] =
       [29, 31, 49, 51, 10, 14, 18, 22, 29, 31, 49, 51]"
    by code_simp+
  have on: "calls (snd (LVDBE_Process ref_env 0 100 2 ?on)) =
     [Call_Copy_Float 0 1000 4, Call_FromMcToMono_Float 1000 1004 2 2,
      Call_BPF_process 1004 1004 2, Call_AGC_MIX_VOL 1000 1004 1000 2 2,
      Call_memset 1004 4, Call_LVC_MixSoft_2Mc 1000 1004 100 2 2]"
    "BypassVolume (pData (inst (snd (LVDBE_Process ref_env 0 100 2 ?on)))) =
       \<lparr>Current = 2, Target = 1\<rparr>"
    "map (heap (snd (LVDBE_Process ref_env 0 100 2 ?on)))
       [1004, 1005, 1006, 1007, 100, 101, 102, 103] = [0, 0, 0, 0, 29, 31, 49, 51]"
    by code_simp+
  show ?thesis
    using C3_bypass_volume_path_and_final_mix
        [OF guard(1), where env = ref_env and pInData = 0 and pOutData = 100]
      C3_bypass_volume_path_and_final_mix
        [OF guard(2), where env = ref_env and pInData = 0 and pOutData = 100]
    by (simp (no_asm) only: guard fade on simp_thms)
qed

text \<open>
  C4. A successful call zero-fills at most one of the two regions: the operating mode is
  ON or OFF, so the enhanced path or the bypass-volume path is computed.
\<close>

theorem C4_at_most_one_zero_fill:
  assumes guard: "uint NrFrames \<le> MaxBlockSize (Capabilities (inst m))"
  shows "length (filter is_memset
           (drop (length (calls m))
              (calls (snd (LVDBE_Process env pInData pOutData NrFrames m))))) \<le> 1 \<and>
         (DBE_active env (inst m) \<or> BypassVolume_active env (inst m))"
proof -
  have one: "DBE_active env (inst m) \<or> BypassVolume_active env (inst m)"
    by (cases "OperatingMode (Params (inst m))")
      (simp_all add: DBE_active_def BypassVolume_active_def)
  have "length (filter is_memset
           (drop (length (calls m))
              (calls (snd (LVDBE_Process env pInData pOutData NrFrames m))))) \<le> 1"
  proof (cases "DBE_active env (inst m)")
    case True
    then show ?thesis
      by (simp add: new_calls_LVDBE_Process [OF guard])
  next
    case False
    with one have "BypassVolume_active env (inst m)"
      by simp
    with False show ?thesis
      by (simp add: new_calls_LVDBE_Process [OF guard])
  qed
  with one show ?thesis
    by simp
qed

theorem C4_at_most_one_zero_fill_witness:
  "uint (2 :: LVM_UINT16) \<le> MaxBlockSize (Capabilities (inst
      (example_machine LVDBE_OFF LVDBE_HPF_ON 2 4
         \<lparr>Current = 0, Target = 0\<rparr> \<lparr>Current = 1, Target = 1\<rparr>))) \<and>
   filter is_memset (calls (snd (LVDBE_Process ref_env 0 100 2
     (example_machine LVDBE_OFF LVDBE_HPF_ON 2 4
        \<lparr>Current = 0, Target = 0\<rparr> \<lparr>Current = 1, Target = 1\<rparr>)))) = [Call_memset 1000 4] \<and>
   BypassVolume_active ref_env (inst
     (example_machine LVDBE_OFF LVDBE_HPF_ON 2 4
        \<lparr>Current = 0, Target = 0\<rparr> \<lparr>Current = 1, Target = 1\<rparr>))"
  using C4_at_most_one_zero_fill [of 2
      "example_machine LVDBE_OFF LVDBE_HPF_ON 2 4
         \<lparr>Current = 0, Target = 0\<rparr> \<lparr>Current = 1, Target = 1\<rparr>" ref_env 0 100]
  by (simp add: example_machine_def example_instance_def ref_env_def
      new_calls_LVDBE_Process DBE_active_def BypassVolume_active_def)

subsection \<open>Counts narrowed to 16 bits\<close>

text \<open>
  The signed reading of a 32-bit value narrowed to 16 bits, and of the 32-bit product
  \<open>NrChannels * NrFrames\<close>.
\<close>

lemma signed_take_bit_15_nonneg:
  "0 \<le> k \<Longrightarrow> signed_take_bit 15 k = k \<longleftrightarrow> k \<le> 32767" for k :: int
  by (simp add: signed_take_bit_int_eq_self_iff) arith

lemma signed_take_bit_31_small:
  "0 \<le> k \<Longrightarrow> k < 2147483648 \<Longrightarrow> signed_take_bit 31 k = k" for k :: int
  by (simp add: signed_take_bit_int_eq_self_iff)

lemma sint_ucast_frames: "sint (ucast (n :: 16 word) :: 32 word) = uint n"
proof -
  have "uint n < 2147483648"
    using uint_bounded [of n] by simp
  then have "signed_take_bit 31 (uint n) = uint n"
    by (intro signed_take_bit_31_small) simp_all
  then show ?thesis
    by (simp add: signed_ucast_eq)
qed

lemma sint_narrow: "sint (ucast (x :: 32 word) :: 16 word) = signed_take_bit 15 (sint x)"
  by (simp add: signed_ucast_eq uint_sint signed_take_bit_take_bit)

lemma sint_NrSamples:
  fixes c :: "32 word" and n :: "16 word"
  assumes "0 \<le> sint c" and "sint c < 2 ^ 15"
  shows "sint (c * ucast n) = sint c * uint n"
proof -
  have n: "0 \<le> uint n" "uint n \<le> 2 ^ 16"
    using uint_bounded [of n] by simp_all
  have "sint c * uint n \<le> (2 ^ 15 - 1) * 2 ^ 16"
    using assms n by (intro mult_mono) simp_all
  then have "sint c * uint n < 2147483648"
    by simp
  moreover have "0 \<le> sint c * uint n"
    using assms n by simp
  ultimately have "signed_take_bit 31 (sint c * uint n) = sint c * uint n"
    by (rule signed_take_bit_31_small [rotated])
  then show ?thesis
    by (simp add: sint_word_mult sint_ucast_frames)
qed

lemma sint_frames_narrow: "sint (n :: 16 word) = uint n \<longleftrightarrow> uint n \<le> 32767"
  using signed_take_bit_15_nonneg [of "uint n"]
  by (simp add: sint_uint)

lemma narrow_exact_iff:
  fixes c :: "32 word" and n :: "16 word"
  assumes "0 \<le> sint c" and "sint c < 2 ^ 15"
  shows "sint (ucast (c * ucast n) :: 16 word) = sint c * uint n \<longleftrightarrow>
         sint c * uint n \<le> 32767"
proof -
  have "0 \<le> sint c * uint n"
    using assms by simp
  then show ?thesis
    using signed_take_bit_15_nonneg [of "sint c * uint n"]
    by (simp add: sint_narrow sint_NrSamples [OF assms])
qed



subsection \<open>The reference collaborators keep the contracts\<close>

lemma same_outside_refl [simp]: "same_outside p n h h"
  by (simp add: same_outside_def)

lemma ref_Copy_Float_frame: "Copy_Float_frame ref_env"
  by (simp add: Copy_Float_frame_def ref_env_def ref_Copy_Float_def same_outside_def)

lemma ref_HPF_frame:
  "HPF_frame ref_env (example_instance mode hpf channels maxBlock s0 s1)"
proof (cases "0 \<le> sint channels")
  case True
  then show ?thesis
    by (simp add: HPF_frame_def ref_env_def ref_BiquadFilter_process_def example_instance_def
        same_outside_def)
next
  case False
  then have "nat (sint channels) = 0"
    by simp
  then show ?thesis
    by (simp add: HPF_frame_def ref_env_def ref_BiquadFilter_process_def example_instance_def
        same_outside_def)
qed

lemma ref_BPF_frame:
  "BPF_frame ref_env (example_instance mode hpf channels maxBlock s0 s1)"
  by (simp add: BPF_frame_def ref_env_def ref_BiquadFilter_process_def example_instance_def
      same_outside_def)

lemma ref_FromMcToMono_Float_frame: "FromMcToMono_Float_frame ref_env"
  by (simp add: FromMcToMono_Float_frame_def ref_env_def ref_FromMcToMono_Float_def
      same_outside_def)

lemma ref_AGC_MIX_VOL_frame: "AGC_MIX_VOL_frame ref_env"
  by (simp add: AGC_MIX_VOL_frame_def ref_env_def ref_AGC_MIX_VOL_def same_outside_def)

lemma mix_extent_le: "0 \<le> sint f \<Longrightarrow> 0 \<le> sint c \<Longrightarrow> mix_extent f c = sint f * sint c"
  by (auto simp add: mix_extent_def not_less order.antisym)

lemma ref_LVC_MixSoft_Mc_frame: "LVC_MixSoft_Mc_frame ref_env"
  by (simp add: LVC_MixSoft_Mc_frame_def ref_env_def ref_LVC_MixSoft_Mc_def same_outside_def
      mix_extent_le)

lemma ref_LVC_MixSoft_2Mc_frame: "LVC_MixSoft_2Mc_frame ref_env"
  by (simp add: LVC_MixSoft_2Mc_frame_def ref_env_def ref_LVC_MixSoft_2Mc_def
      same_outside_def mix_extent_le)

text \<open>The definitions a run of the routine on the reference collaborators unfolds.\<close>

lemmas run_defs = LVDBE_Process_def Let_def DBE_path_def BypassVolume_path_def Mix_paths_def
  DBE_active_def BypassVolume_active_def call_Copy_Float_def call_HPF_process_def
  call_BPF_process_def call_FromMcToMono_Float_def call_AGC_MIX_VOL_def call_memset_def
  call_LVC_MixSoft_Mc_def call_LVC_MixSoft_2Mc_def log_call_def memset_zero_def memset_cells_def
  ref_env_def ref_Copy_Float_def ref_BiquadFilter_process_def ref_FromMcToMono_Float_def
  ref_AGC_MIX_VOL_def ref_LVC_MixSoft_Mc_def ref_LVC_MixSoft_2Mc_def mix_extent_def saturate_def
  example_machine_def example_instance_def example_heap_def write_block_def

subsection \<open>A call with no frames\<close>

lemma memset_zero_none [simp]: "memset_zero z p 0 h = h"
  by (rule ext) (auto simp add: memset_zero_def)

lemma memset_cells_0 [simp]: "memset_cells 0 = 0"
  by (simp add: memset_cells_def)




subsection \<open>Where a successful call writes\<close>

lemma same_outside_trans:
  "same_outside p n h1 h2 \<Longrightarrow> same_outside p n h2 h3 \<Longrightarrow> same_outside p n h1 h3"
  by (simp add: same_outside_def)

lemma same_outside_widen:
  "same_outside p n h h' \<Longrightarrow> q \<le> p \<Longrightarrow> p + n \<le> q + k \<Longrightarrow> same_outside q k h h'"
  by (auto simp add: same_outside_def)

lemma same_outside_memset_zero: "same_outside p n h (memset_zero z p n h)"
  by (auto simp add: same_outside_def memset_zero_def)

text \<open>The counts of a block whose sample count fits 16 bits are handed on exactly.\<close>

lemma counts_exact:
  fixes c :: LVM_INT32 and n :: LVM_UINT16
  assumes c1: "1 \<le> sint c" and c2: "sint c < 2 ^ 15" and s: "sint c * uint n \<le> 32767"
  shows "sint (c * ucast n) = sint c * uint n"
    and "sint (ucast (c * ucast n) :: LVM_INT16) = sint c * uint n"
    and "sint (ucast c :: LVM_INT16) = sint c"
    and "sint n = uint n"
    and "uint n \<le> sint c * uint n"
    and "int (unat n) = uint n"
proof -
  have c0: "0 \<le> sint c"
    using c1 by simp
  show prod: "sint (c * ucast n) = sint c * uint n"
    by (rule sint_NrSamples [OF c0 c2])
  show "sint (ucast (c * ucast n) :: LVM_INT16) = sint c * uint n"
    using narrow_exact_iff [OF c0 c2, of n] s by simp
  have "signed_take_bit 15 (sint c) = sint c"
    using c0 c2 by (simp add: signed_take_bit_int_eq_self)
  then show "sint (ucast c :: LVM_INT16) = sint c"
    by (simp add: sint_narrow)
  have "1 * uint n \<le> sint c * uint n"
    using c1 by (intro mult_right_mono) simp_all
  then show le: "uint n \<le> sint c * uint n"
    by simp
  with s have "uint n \<le> 32767"
    by simp
  then show "sint n = uint n"
    by (simp add: sint_frames_narrow)
  show "int (unat n) = uint n"
    by simp
qed

lemma pBPFBiquad_call_HPF_process [simp]:
  "pBPFBiquad (inst (call_HPF_process env src dst n m)) = pBPFBiquad (inst m)"
  by (simp add: call_HPF_process_def split: prod.split)

lemma frame_call_Copy_Float:
  "Copy_Float_frame env \<Longrightarrow> 0 \<le> sint n \<Longrightarrow>
   same_outside dst (sint n) (heap m) (heap (call_Copy_Float env src dst n m))"
  by (simp add: Copy_Float_frame_def call_Copy_Float_def)

lemma frame_call_HPF_process:
  "HPF_frame env pInstance \<Longrightarrow> pHPFBiquad (inst m) = pHPFBiquad pInstance \<Longrightarrow>
   same_outside dst (int n * sint (NrChannels (Params pInstance))) (heap m)
     (heap (call_HPF_process env src dst n m))"
  by (simp add: HPF_frame_def call_HPF_process_def split_beta)

lemma frame_call_BPF_process:
  "BPF_frame env pInstance \<Longrightarrow> pBPFBiquad (inst m) = pBPFBiquad pInstance \<Longrightarrow>
   same_outside dst (int n) (heap m) (heap (call_BPF_process env src dst n m))"
  by (simp add: BPF_frame_def call_BPF_process_def split_beta)

lemma frame_call_FromMcToMono_Float:
  "FromMcToMono_Float_frame env \<Longrightarrow> 0 \<le> sint f \<Longrightarrow> 0 \<le> sint c \<Longrightarrow>
   same_outside dst (sint f) (heap m) (heap (call_FromMcToMono_Float env src dst f c m))"
  by (simp add: FromMcToMono_Float_frame_def call_FromMcToMono_Float_def)

lemma frame_call_AGC_MIX_VOL:
  "AGC_MIX_VOL_frame env \<Longrightarrow> 0 \<le> sint c \<Longrightarrow>
   same_outside dst (uint f * sint c) (heap m)
     (heap (call_AGC_MIX_VOL env src monoSrc dst f c m))"
  by (simp add: AGC_MIX_VOL_frame_def call_AGC_MIX_VOL_def split_beta)

lemma frame_call_memset:
  "same_outside p (memset_cells n) (heap m) (heap (call_memset env p n m))"
  by (simp add: call_memset_def same_outside_memset_zero)

lemma frame_call_LVC_MixSoft_Mc:
  "LVC_MixSoft_Mc_frame env \<Longrightarrow> 0 \<le> sint f \<Longrightarrow> 0 \<le> sint c \<Longrightarrow>
   same_outside dst (sint f * sint c) (heap m)
     (heap (call_LVC_MixSoft_Mc env src dst f c m))"
  by (simp add: LVC_MixSoft_Mc_frame_def call_LVC_MixSoft_Mc_def split_beta)

lemma frame_call_LVC_MixSoft_2Mc:
  "LVC_MixSoft_2Mc_frame env \<Longrightarrow> 0 \<le> sint f \<Longrightarrow> 0 \<le> sint c \<Longrightarrow>
   same_outside dst (sint f * sint c) (heap m)
     (heap (call_LVC_MixSoft_2Mc env src1 src2 dst f c m))"
  by (simp add: LVC_MixSoft_2Mc_frame_def call_LVC_MixSoft_2Mc_def split_beta)

lemma frame_DBE_path:
  fixes m :: "('f, 'bq, 'agc, 'st) machine" and NrFrames :: LVM_UINT16
  assumes copy: "Copy_Float_frame env" and hpf: "HPF_frame env (inst m)"
    and bpf: "BPF_frame env (inst m)" and mono: "FromMcToMono_Float_frame env"
    and agc: "AGC_MIX_VOL_frame env"
    and NrCh: "NrCh = NrChannels (Params (inst m))"
    and c1: "1 \<le> sint NrCh" and c2: "sint NrCh < 2 ^ 15"
    and s: "sint NrCh * uint NrFrames \<le> 32767"
  shows "same_outside pScr (2 * (sint NrCh * uint NrFrames)) (heap m)
           (heap (DBE_path env pInData NrFrames NrCh (NrCh * ucast NrFrames) pScr
                    (pScr + sint (NrCh * ucast NrFrames)) m))"
proof -
  let ?S = "sint NrCh * uint NrFrames"
  let ?pMono = "pScr + ?S"
  note ce = counts_exact [OF c1 c2 s]
  have S0: "0 \<le> ?S"
    using c1 by simp
  have NS: "uint NrFrames \<le> ?S"
    by (rule ce(5))
  define m1 where "m1 = call_Copy_Float env pInData pScr (ucast (NrCh * ucast NrFrames)) m"
  define m2 where "m2 = (if HPFSelect (Params (inst m1)) = LVDBE_HPF_ON
                  then call_HPF_process env pScr pScr (unat NrFrames) m1
                  else m1)"
  define m3 where "m3 = call_FromMcToMono_Float env pScr ?pMono NrFrames (ucast NrCh) m2"
  define m4 where "m4 = call_BPF_process env ?pMono ?pMono (unat NrFrames) m3"
  define m5 where "m5 = call_AGC_MIX_VOL env pScr ?pMono pScr NrFrames NrCh m4"
  have "same_outside pScr ?S (heap m) (heap m1)"
    unfolding m1_def using frame_call_Copy_Float [OF copy, of "ucast (NrCh * ucast NrFrames)"]
    by (simp add: ce S0)
  then have f1: "same_outside pScr (2 * ?S) (heap m) (heap m1)"
    by (rule same_outside_widen) (use S0 in simp_all)
  have "same_outside pScr (uint NrFrames * sint NrCh) (heap m1) (heap m2)"
    unfolding m2_def
    using frame_call_HPF_process [OF hpf, of m1 pScr "unat NrFrames" pScr]
    by (simp add: m1_def NrCh)
  then have f2: "same_outside pScr (2 * ?S) (heap m1) (heap m2)"
    by (rule same_outside_widen) (use S0 in \<open>simp_all add: mult.commute\<close>)
  have "same_outside ?pMono (uint NrFrames) (heap m2) (heap m3)"
    unfolding m3_def
    using frame_call_FromMcToMono_Float [OF mono, of NrFrames "ucast NrCh" ?pMono m2 pScr]
      c1
    by (simp add: ce)
  then have f3: "same_outside pScr (2 * ?S) (heap m2) (heap m3)"
    by (rule same_outside_widen) (use S0 NS in simp_all)
  have "pBPFBiquad (inst m3) = pBPFBiquad (inst m)"
    by (simp add: m3_def m2_def m1_def)
  then have "same_outside ?pMono (uint NrFrames) (heap m3) (heap m4)"
    unfolding m4_def
    using frame_call_BPF_process [OF bpf, of m3 ?pMono "unat NrFrames" ?pMono]
    by simp
  then have f4: "same_outside pScr (2 * ?S) (heap m3) (heap m4)"
    by (rule same_outside_widen) (use S0 NS in simp_all)
  have "same_outside pScr (uint NrFrames * sint NrCh) (heap m4) (heap m5)"
    unfolding m5_def
    using frame_call_AGC_MIX_VOL [OF agc, of NrCh pScr NrFrames m4 pScr ?pMono] c1
    by simp
  then have f5: "same_outside pScr (2 * ?S) (heap m4) (heap m5)"
    by (rule same_outside_widen) (use S0 in \<open>simp_all add: mult.commute\<close>)
  have active: "same_outside pScr (2 * ?S) (heap m) (heap m5)"
    using f1 f2 f3 f4 f5 by (blast intro: same_outside_trans)
  have "same_outside pScr ?S (heap m)
          (heap (call_memset env pScr (NrCh * ucast NrFrames) m))"
    using frame_call_memset [of pScr "NrCh * ucast NrFrames" m env] S0
    by (simp add: memset_cells_nonneg ce)
  then have inactive: "same_outside pScr (2 * ?S) (heap m)
          (heap (call_memset env pScr (NrCh * ucast NrFrames) m))"
    by (rule same_outside_widen) (use S0 in simp_all)
  have "DBE_path env pInData NrFrames NrCh (NrCh * ucast NrFrames) pScr
          (pScr + sint (NrCh * ucast NrFrames)) m =
        (if DBE_active env (inst m) then m5
         else call_memset env pScr (NrCh * ucast NrFrames) m)"
    by (simp only: DBE_path_def Let_def m5_def m4_def m3_def m2_def m1_def ce(1))
  with active inactive show ?thesis
    by simp
qed

lemma frame_BypassVolume_path:
  fixes m :: "('f, 'bq, 'agc, 'st) machine" and NrFrames :: LVM_UINT16
  assumes mix: "LVC_MixSoft_Mc_frame env"
    and c1: "1 \<le> sint NrCh" and c2: "sint NrCh < 2 ^ 15"
    and s: "sint NrCh * uint NrFrames \<le> 32767"
  shows "same_outside pScratchVol (sint NrCh * uint NrFrames) (heap m)
           (heap (BypassVolume_path env pInData NrFrames NrCh (NrCh * ucast NrFrames)
                    pScratchVol m))"
proof -
  let ?S = "sint NrCh * uint NrFrames"
  note ce = counts_exact [OF c1 c2 s]
  have S0: "0 \<le> ?S"
    using c1 by simp
  have "same_outside pScratchVol (uint NrFrames * sint NrCh) (heap m)
          (heap (call_LVC_MixSoft_Mc env pInData pScratchVol NrFrames (ucast NrCh) m))"
    using frame_call_LVC_MixSoft_Mc [OF mix, of NrFrames "ucast NrCh" pScratchVol m pInData]
      c1
    by (simp add: ce)
  moreover have "same_outside pScratchVol ?S (heap m)
          (heap (call_memset env pScratchVol (NrCh * ucast NrFrames) m))"
    using frame_call_memset [of pScratchVol "NrCh * ucast NrFrames" m env] S0
    by (simp add: memset_cells_nonneg ce)
  ultimately show ?thesis
    by (simp add: BypassVolume_path_def mult.commute)
qed

lemma frame_Mix_paths:
  fixes m :: "('f, 'bq, 'agc, 'st) machine" and NrFrames :: LVM_UINT16
  assumes mix: "LVC_MixSoft_2Mc_frame env"
    and c1: "1 \<le> sint NrCh" and c2: "sint NrCh < 2 ^ 15"
    and s: "sint NrCh * uint NrFrames \<le> 32767"
  shows "same_outside pOutData (sint NrCh * uint NrFrames) (heap m)
           (heap (Mix_paths env pOutData NrFrames NrCh pScr pScratchVol m))"
proof -
  note ce = counts_exact [OF c1 c2 s]
  show ?thesis
    using frame_call_LVC_MixSoft_2Mc
      [OF mix, of NrFrames "ucast NrCh" pOutData m pScr pScratchVol] c1
    by (simp add: Mix_paths_def ce mult.commute)
qed

lemma BypassMixer_call_LVC_MixSoft_Mc [simp]:
  "BypassMixer (pData (inst (call_LVC_MixSoft_Mc env src dst f c m))) =
     BypassMixer (pData (inst m))"
  by (simp add: call_LVC_MixSoft_Mc_def split_beta)

lemma BypassMixer_BypassVolume_path [simp]:
  "BypassMixer (pData (inst (BypassVolume_path env pInData NrFrames NrCh NrSamples pScratchVol
      m))) = BypassMixer (pData (inst m))"
  by (simp add: BypassVolume_path_def)

text \<open>
  C9 (as amended). For a block whose sample count \<open>S = channels * frames\<close> is at most
  32767 (channel count from 1 to 32767), and with collaborators that write only to the
  destination block they are given: a successful call hands the final two-input mixer the
  output pointer with counts whose product is \<open>S\<close>, on a memory \<open>h2\<close> that differs
  from the memory of the caller only in the scratch buffer (in the \<open>2 * S\<close> cells from
  \<open>pScratch\<close> on), and the memory the call returns is the one this mixer returns. So
  everything written before the final mixer lies in the scratch buffer, the output block
  holds what the final mixer puts there, and a cell outside the scratch buffer and the
  \<open>S\<close> cells of the output block, of the input block or past the output block, keeps its
  value.
\<close>

theorem C9_writes_confined_to_scratch_and_output:
  fixes env :: "('f, 'bq, 'agc, 'st) collaborators"
    and m :: "('f, 'bq, 'agc, 'st) machine"
    and NrFrames :: LVM_UINT16
    and NrCh pScr S
  defines "NrCh \<equiv> NrChannels (Params (inst m))"
    and "pScr \<equiv> pScratch (inst m)"
    and "S \<equiv> sint NrCh * uint NrFrames"
  assumes copy: "Copy_Float_frame env" and hpf: "HPF_frame env (inst m)"
    and bpf: "BPF_frame env (inst m)" and mono: "FromMcToMono_Float_frame env"
    and agc: "AGC_MIX_VOL_frame env" and mix1: "LVC_MixSoft_Mc_frame env"
    and mix2: "LVC_MixSoft_2Mc_frame env"
    and guard: "uint NrFrames \<le> MaxBlockSize (Capabilities (inst m))"
    and c1: "1 \<le> sint (NrChannels (Params (inst m)))"
    and c2: "sint (NrChannels (Params (inst m))) < 2 ^ 15"
    and s: "sint (NrChannels (Params (inst m))) * uint NrFrames \<le> 32767"
  shows "fst (LVDBE_Process env pInData pOutData NrFrames m) = LVDBE_SUCCESS \<and>
         (\<exists>h2. (\<forall>a. a < pScr \<or> pScr + 2 * S \<le> a \<longrightarrow> h2 a = heap m a) \<and>
               heap (snd (LVDBE_Process env pInData pOutData NrFrames m)) =
                 snd (LVC_MixSoft_2Mc_D16C31_SAT env (BypassMixer (pData (inst m)))
                        pScr (pScr + S) pOutData NrFrames (ucast NrCh) h2) \<and>
               sint NrFrames * sint (ucast NrCh :: LVM_INT16) = S) \<and>
         (\<forall>a. (a < pScr \<or> pScr + 2 * S \<le> a) \<and> (a < pOutData \<or> pOutData + S \<le> a) \<longrightarrow>
              heap (snd (LVDBE_Process env pInData pOutData NrFrames m)) a = heap m a)"
proof -
  note ce = counts_exact [OF c1 c2 s]
  have S0: "0 \<le> S"
    using c1 by (simp add: S_def NrCh_def)
  define m1 where "m1 = DBE_path env pInData NrFrames NrCh (NrCh * ucast NrFrames) pScr
    (pScr + sint (NrCh * ucast NrFrames)) m"
  define m2 where "m2 = BypassVolume_path env pInData NrFrames NrCh (NrCh * ucast NrFrames)
    (pScr + sint (NrCh * ucast NrFrames)) m1"
  have result: "LVDBE_Process env pInData pOutData NrFrames m =
      (LVDBE_SUCCESS,
       Mix_paths env pOutData NrFrames NrCh pScr (pScr + sint (NrCh * ucast NrFrames)) m2)"
    by (simp only: LVDBE_Process_success [OF guard] m2_def m1_def NrCh_def pScr_def)
  have f1: "same_outside pScr (2 * S) (heap m) (heap m1)"
    unfolding m1_def S_def NrCh_def
    by (rule frame_DBE_path [OF copy hpf bpf mono agc refl c1 c2 s])
  have "same_outside (pScr + S) S (heap m1) (heap m2)"
    using frame_BypassVolume_path [OF mix1 c1 c2 s, of "pScr + S" m1 pInData]
    by (simp add: m2_def S_def NrCh_def ce)
  then have f2: "same_outside pScr (2 * S) (heap m1) (heap m2)"
    by (rule same_outside_widen) (use S0 in simp_all)
  have f12: "same_outside pScr (2 * S) (heap m) (heap m2)"
    using f1 f2 by (rule same_outside_trans)
  have f3: "same_outside pOutData S (heap m2)
      (heap (Mix_paths env pOutData NrFrames NrCh pScr
               (pScr + sint (NrCh * ucast NrFrames)) m2))"
    unfolding S_def NrCh_def
    by (rule frame_Mix_paths [OF mix2 c1 c2 s])
  have counts: "sint NrFrames * sint (ucast NrCh :: LVM_INT16) = S"
    by (simp add: S_def NrCh_def ce mult.commute)
  have mixer: "BypassMixer (pData (inst m2)) = BypassMixer (pData (inst m))"
    by (simp add: m2_def m1_def)
  have "heap (snd (LVDBE_Process env pInData pOutData NrFrames m)) =
          snd (LVC_MixSoft_2Mc_D16C31_SAT env (BypassMixer (pData (inst m)))
                 pScr (pScr + S) pOutData NrFrames (ucast NrCh) (heap m2))"
    by (simp add: result heap_Mix_paths mixer S_def NrCh_def ce)
  with f12 counts have handed:
    "\<exists>h2. (\<forall>a. a < pScr \<or> pScr + 2 * S \<le> a \<longrightarrow> h2 a = heap m a) \<and>
          heap (snd (LVDBE_Process env pInData pOutData NrFrames m)) =
            snd (LVC_MixSoft_2Mc_D16C31_SAT env (BypassMixer (pData (inst m)))
                   pScr (pScr + S) pOutData NrFrames (ucast NrCh) h2) \<and>
          sint NrFrames * sint (ucast NrCh :: LVM_INT16) = S"
    unfolding same_outside_def by blast
  have final: "\<forall>a. (a < pScr \<or> pScr + 2 * S \<le> a) \<and> (a < pOutData \<or> pOutData + S \<le> a) \<longrightarrow>
              heap (snd (LVDBE_Process env pInData pOutData NrFrames m)) a = heap m a"
    using f12 f3 unfolding same_outside_def result by auto
  from handed final show ?thesis
    by (simp add: result)
qed

theorem C9_writes_confined_to_scratch_and_output_witness:
  "fst (LVDBE_Process ref_env 0 100 2
     (example_machine LVDBE_OFF LVDBE_HPF_ON 2 4
        \<lparr>Current = 1, Target = 0\<rparr> \<lparr>Current = 0, Target = 1\<rparr>)) = LVDBE_SUCCESS \<and>
   map (heap (example_machine LVDBE_OFF LVDBE_HPF_ON 2 4
        \<lparr>Current = 1, Target = 0\<rparr> \<lparr>Current = 0, Target = 1\<rparr>))
     [0, 1, 2, 3, 4, 99, 104, 999, 1008, 100, 101, 102, 103] =
     [5, 7, 9, 11, - 5, - 100, - 105, - 1000, - 1009, - 101, - 102, - 103, - 104] \<and>
   map (heap (snd (LVDBE_Process ref_env 0 100 2
     (example_machine LVDBE_OFF LVDBE_HPF_ON 2 4
        \<lparr>Current = 1, Target = 0\<rparr> \<lparr>Current = 0, Target = 1\<rparr>))))
     [0, 1, 2, 3, 4, 99, 104, 999, 1008, 100, 101, 102, 103] =
     [5, 7, 9, 11, - 5, - 100, - 105, - 1000, - 1009, 58, 62, 98, 102]"
proof -
  let ?m = "example_machine LVDBE_OFF LVDBE_HPF_ON 2 4
        \<lparr>Current = 1, Target = 0\<rparr> \<lparr>Current = 0, Target = 1\<rparr>"
  have inst: "inst ?m = example_instance LVDBE_OFF LVDBE_HPF_ON 2 4
        \<lparr>Current = 1, Target = 0\<rparr> \<lparr>Current = 0, Target = 1\<rparr>"
    by (simp add: example_machine_def)
  have hpf: "HPF_frame ref_env (inst ?m)"
    unfolding inst by (rule ref_HPF_frame)
  have bpf: "BPF_frame ref_env (inst ?m)"
    unfolding inst by (rule ref_BPF_frame)
  have guard: "uint (2 :: LVM_UINT16) \<le> MaxBlockSize (Capabilities (inst ?m))"
    and c1: "1 \<le> sint (NrChannels (Params (inst ?m)))"
    and c2: "sint (NrChannels (Params (inst ?m))) < 2 ^ 15"
    and s: "sint (NrChannels (Params (inst ?m))) * uint (2 :: LVM_UINT16) \<le> 32767"
    by (simp_all add: inst example_instance_def)
  have run: "fst (LVDBE_Process ref_env 0 100 2 ?m) = LVDBE_SUCCESS"
    "map (heap ?m) [0, 1, 2, 3, 4, 99, 104, 999, 1008, 100, 101, 102, 103] =
     [5, 7, 9, 11, - 5, - 100, - 105, - 1000, - 1009, - 101, - 102, - 103, - 104]"
    "map (heap (snd (LVDBE_Process ref_env 0 100 2 ?m)))
       [0, 1, 2, 3, 4, 99, 104, 999, 1008, 100, 101, 102, 103] =
     [5, 7, 9, 11, - 5, - 100, - 105, - 1000, - 1009, 58, 62, 98, 102]"
    by code_simp+
  show ?thesis
    using C9_writes_confined_to_scratch_and_output
      [OF ref_Copy_Float_frame hpf bpf ref_FromMcToMono_Float_frame ref_AGC_MIX_VOL_frame
        ref_LVC_MixSoft_Mc_frame ref_LVC_MixSoft_2Mc_frame guard c1 c2 s, of 0 100]
    by (simp (no_asm) only: run simp_thms)
qed

text \<open>
  The copy that strays when it is handed a negative count keeps every contract: the
  contract of the copy speaks of counts that are not negative only.
\<close>

lemma stray_env_keeps_contracts:
  "Copy_Float_frame stray_env"
  "HPF_frame stray_env (example_instance mode hpf channels maxBlock s0 s1)"
  "BPF_frame stray_env (example_instance mode hpf channels maxBlock s0 s1)"
  "FromMcToMono_Float_frame stray_env"
  "AGC_MIX_VOL_frame stray_env"
  "LVC_MixSoft_Mc_frame stray_env"
  "LVC_MixSoft_2Mc_frame stray_env"
proof -
  show "Copy_Float_frame stray_env"
    by (simp add: Copy_Float_frame_def stray_env_def stray_Copy_Float_def ref_Copy_Float_def
        same_outside_def)
  show "HPF_frame stray_env (example_instance mode hpf channels maxBlock s0 s1)"
    using ref_HPF_frame [of mode hpf channels maxBlock s0 s1]
    by (simp add: HPF_frame_def stray_env_def)
  show "BPF_frame stray_env (example_instance mode hpf channels maxBlock s0 s1)"
    using ref_BPF_frame [of mode hpf channels maxBlock s0 s1]
    by (simp add: BPF_frame_def stray_env_def)
  show "FromMcToMono_Float_frame stray_env"
    using ref_FromMcToMono_Float_frame
    by (simp add: FromMcToMono_Float_frame_def stray_env_def)
  show "AGC_MIX_VOL_frame stray_env"
    using ref_AGC_MIX_VOL_frame
    by (simp add: AGC_MIX_VOL_frame_def stray_env_def)
  show "LVC_MixSoft_Mc_frame stray_env"
    using ref_LVC_MixSoft_Mc_frame
    by (simp add: LVC_MixSoft_Mc_frame_def stray_env_def)
  show "LVC_MixSoft_2Mc_frame stray_env"
    using ref_LVC_MixSoft_2Mc_frame
    by (simp add: LVC_MixSoft_2Mc_frame_def stray_env_def)
qed

text \<open>
  C9 as stated fails for a successful call whose sample count exceeds 32767, in both its
  halves. The input block is at address 100000 and the output block at address 200000,
  both apart from the scratch buffer at address 1000.

  With 8 channels and 4096 frames (a maximum block size of 4096, the operating mode ON)
  the sample count is 32768 and the copy is handed the count \<open>-32768\<close>, of which its
  contract says nothing. With the copy that then strays, and every collaborator keeping
  its contract, the call returns \<^verbatim>\<open>LVDBE_SUCCESS\<close> and the cell at address 999,
  which is neither in the scratch buffer nor in the output block, no longer holds
  \<open>-1000\<close> but 42.

  With one channel and 40000 frames (a maximum block size of 40000, the operating mode
  OFF), and the reference collaborators, the final mixer is handed the frame count 40000
  as a signed 16-bit integer, which reads \<open>-25536\<close>, and has no frame to write: the
  cells of the output block hold after the call what they held before, values that no
  saturating mixer produces. No sample of the \<open>channels * frames\<close> is written.
\<close>

theorem C9_writes_astray_and_output_unwritten:
  "Copy_Float_frame stray_env \<and>
   HPF_frame stray_env (inst
     (example_machine LVDBE_ON LVDBE_HPF_OFF 8 4096
        \<lparr>Current = 1, Target = 1\<rparr> \<lparr>Current = 0, Target = 0\<rparr>)) \<and>
   BPF_frame stray_env (inst
     (example_machine LVDBE_ON LVDBE_HPF_OFF 8 4096
        \<lparr>Current = 1, Target = 1\<rparr> \<lparr>Current = 0, Target = 0\<rparr>)) \<and>
   FromMcToMono_Float_frame stray_env \<and> AGC_MIX_VOL_frame stray_env \<and>
   LVC_MixSoft_Mc_frame stray_env \<and> LVC_MixSoft_2Mc_frame stray_env \<and>
   uint (4096 :: LVM_UINT16) \<le> MaxBlockSize (Capabilities (inst
     (example_machine LVDBE_ON LVDBE_HPF_OFF 8 4096
        \<lparr>Current = 1, Target = 1\<rparr> \<lparr>Current = 0, Target = 0\<rparr>))) \<and>
   sint (NrChannels (Params (inst
     (example_machine LVDBE_ON LVDBE_HPF_OFF 8 4096
        \<lparr>Current = 1, Target = 1\<rparr> \<lparr>Current = 0, Target = 0\<rparr>)))) *
     uint (4096 :: LVM_UINT16) = 32768 \<and>
   fst (LVDBE_Process stray_env 100000 200000 4096
     (example_machine LVDBE_ON LVDBE_HPF_OFF 8 4096
        \<lparr>Current = 1, Target = 1\<rparr> \<lparr>Current = 0, Target = 0\<rparr>)) = LVDBE_SUCCESS \<and>
   hd (calls (snd (LVDBE_Process stray_env 100000 200000 4096
     (example_machine LVDBE_ON LVDBE_HPF_OFF 8 4096
        \<lparr>Current = 1, Target = 1\<rparr> \<lparr>Current = 0, Target = 0\<rparr>)))) =
     Call_Copy_Float 100000 1000 32768 \<and>
   sint (32768 :: LVM_INT16) = - 32768 \<and>
   heap (example_machine LVDBE_ON LVDBE_HPF_OFF 8 4096
        \<lparr>Current = 1, Target = 1\<rparr> \<lparr>Current = 0, Target = 0\<rparr>) 999 = - 1000 \<and>
   heap (snd (LVDBE_Process stray_env 100000 200000 4096
     (example_machine LVDBE_ON LVDBE_HPF_OFF 8 4096
        \<lparr>Current = 1, Target = 1\<rparr> \<lparr>Current = 0, Target = 0\<rparr>))) 999 = 42 \<and>
   uint (40000 :: LVM_UINT16) \<le> MaxBlockSize (Capabilities (inst
     (example_machine LVDBE_OFF LVDBE_HPF_OFF 1 40000
        \<lparr>Current = 0, Target = 0\<rparr> \<lparr>Current = 1, Target = 1\<rparr>))) \<and>
   fst (LVDBE_Process ref_env 100000 200000 40000
     (example_machine LVDBE_OFF LVDBE_HPF_OFF 1 40000
        \<lparr>Current = 0, Target = 0\<rparr> \<lparr>Current = 1, Target = 1\<rparr>)) = LVDBE_SUCCESS \<and>
   calls (snd (LVDBE_Process ref_env 100000 200000 40000
     (example_machine LVDBE_OFF LVDBE_HPF_OFF 1 40000
        \<lparr>Current = 0, Target = 0\<rparr> \<lparr>Current = 1, Target = 1\<rparr>))) =
     [Call_memset 1000 40000, Call_LVC_MixSoft_Mc 100000 41000 40000 1,
      Call_LVC_MixSoft_2Mc 1000 41000 200000 40000 1] \<and>
   sint (40000 :: LVM_INT16) = - 25536 \<and>
   map (heap (example_machine LVDBE_OFF LVDBE_HPF_OFF 1 40000
        \<lparr>Current = 0, Target = 0\<rparr> \<lparr>Current = 1, Target = 1\<rparr>))
     [200000, 200001, 239999] = [- 200001, - 200002, - 240000] \<and>
   map (heap (snd (LVDBE_Process ref_env 100000 200000 40000
     (example_machine LVDBE_OFF LVDBE_HPF_OFF 1 40000
        \<lparr>Current = 0, Target = 0\<rparr> \<lparr>Current = 1, Target = 1\<rparr>))))
     [200000, 200001, 239999] = [- 200001, - 200002, - 240000]"
proof -
  let ?m = "example_machine LVDBE_ON LVDBE_HPF_OFF 8 4096
        \<lparr>Current = 1, Target = 1\<rparr> \<lparr>Current = 0, Target = 0\<rparr>"
  let ?big = "example_machine LVDBE_OFF LVDBE_HPF_OFF 1 40000
        \<lparr>Current = 0, Target = 0\<rparr> \<lparr>Current = 1, Target = 1\<rparr>"
  have inst: "inst ?m = example_instance LVDBE_ON LVDBE_HPF_OFF 8 4096
        \<lparr>Current = 1, Target = 1\<rparr> \<lparr>Current = 0, Target = 0\<rparr>"
    by (simp add: example_machine_def)
  have contracts: "Copy_Float_frame stray_env" "HPF_frame stray_env (inst ?m)"
    "BPF_frame stray_env (inst ?m)" "FromMcToMono_Float_frame stray_env"
    "AGC_MIX_VOL_frame stray_env" "LVC_MixSoft_Mc_frame stray_env"
    "LVC_MixSoft_2Mc_frame stray_env"
    unfolding inst by (rule stray_env_keeps_contracts)+
  have astray: "uint (4096 :: LVM_UINT16) \<le> MaxBlockSize (Capabilities (inst ?m))"
    "sint (NrChannels (Params (inst ?m))) * uint (4096 :: LVM_UINT16) = 32768"
    "fst (LVDBE_Process stray_env 100000 200000 4096 ?m) = LVDBE_SUCCESS"
    "hd (calls (snd (LVDBE_Process stray_env 100000 200000 4096 ?m))) =
       Call_Copy_Float 100000 1000 32768"
    "sint (32768 :: LVM_INT16) = - 32768"
    "heap ?m 999 = - 1000"
    "heap (snd (LVDBE_Process stray_env 100000 200000 4096 ?m)) 999 = 42"
    by (simp_all add: run_defs stray_env_def stray_Copy_Float_def)
  have unwritten: "uint (40000 :: LVM_UINT16) \<le> MaxBlockSize (Capabilities (inst ?big))"
    "fst (LVDBE_Process ref_env 100000 200000 40000 ?big) = LVDBE_SUCCESS"
    "calls (snd (LVDBE_Process ref_env 100000 200000 40000 ?big)) =
     [Call_memset 1000 40000, Call_LVC_MixSoft_Mc 100000 41000 40000 1,
      Call_LVC_MixSoft_2Mc 1000 41000 200000 40000 1]"
    "sint (40000 :: LVM_INT16) = - 25536"
    "map (heap ?big) [200000, 200001, 239999] = [- 200001, - 200002, - 240000]"
    "map (heap (snd (LVDBE_Process ref_env 100000 200000 40000 ?big)))
       [200000, 200001, 239999] = [- 200001, - 200002, - 240000]"
    by (simp_all add: run_defs)
  show ?thesis
    by (simp (no_asm) only: contracts astray unwritten simp_thms)
qed

subsection \<open>The reuse of the mono region\<close>

text \<open>
  The counts of a block whose frame count fits a signed 16-bit integer (channel count from
  1 to 32767) are handed to the downmix and to the mixers exactly.
\<close>

lemma frames_exact:
  fixes c :: LVM_INT32 and n :: LVM_UINT16
  assumes c1: "1 \<le> sint c" and c2: "sint c < 2 ^ 15" and f: "uint n \<le> 32767"
  shows "sint (c * ucast n) = sint c * uint n"
    and "sint (ucast c :: LVM_INT16) = sint c"
    and "sint n = uint n"
    and "uint n \<le> sint c * uint n"
    and "mix_extent n (ucast c) = sint c * uint n"
proof -
  have c0: "0 \<le> sint c"
    using c1 by simp
  show "sint (c * ucast n) = sint c * uint n"
    by (rule sint_NrSamples [OF c0 c2])
  have "signed_take_bit 15 (sint c) = sint c"
    using c0 c2 by (simp add: signed_take_bit_int_eq_self)
  then show narrow: "sint (ucast c :: LVM_INT16) = sint c"
    by (simp add: sint_narrow)
  show frames: "sint n = uint n"
    using f by (simp add: sint_frames_narrow)
  have "1 * uint n \<le> sint c * uint n"
    using c1 by (intro mult_right_mono) simp_all
  then show "uint n \<le> sint c * uint n"
    by simp
  have "mix_extent n (ucast c) = sint n * sint (ucast c :: LVM_INT16)"
    using c1 by (intro mix_extent_le) (simp_all add: narrow frames)
  then show "mix_extent n (ucast c) = sint c * uint n"
    by (simp add: narrow frames mult.commute)
qed

text \<open>
  C7 (as amended). The mono region, which the enhanced path fills and the AGC consumes, is
  the start of the region the bypass-volume block writes next. Settled against the
  reference single-input mixer, for a frame count of at most 32767 (channel count from 1
  to 32767) and an input block that does not overlap the mono region: if the
  memory the enhanced path leaves is replaced by any memory \<open>h'\<close> that differs from it
  only in the \<open>NrFrames\<close> cells of the mono region, the bypass-volume block yields the
  same machine, region contents and mixer stream included, and the call returns the same
  machine, output block included. This holds whether the bypass-volume path is computed
  or zero-filled.
\<close>

theorem C7_mono_contents_do_not_leak:
  fixes m :: "(int, nat \<times> nat, int, ref_stream) machine"
    and NrFrames :: LVM_UINT16
    and pInData :: addr
    and NrCh NrSamples pScr pMono m1
  defines "NrCh \<equiv> NrChannels (Params (inst m))"
    and "NrSamples \<equiv> NrCh * ucast NrFrames"
    and "pScr \<equiv> pScratch (inst m)"
    and "pMono \<equiv> pScr + sint NrSamples"
    and "m1 \<equiv> DBE_path ref_env pInData NrFrames NrCh NrSamples pScr pMono m"
  assumes guard: "uint NrFrames \<le> MaxBlockSize (Capabilities (inst m))"
    and c1: "1 \<le> sint (NrChannels (Params (inst m)))"
    and c2: "sint (NrChannels (Params (inst m))) < 2 ^ 15"
    and f: "uint NrFrames \<le> 32767"
    and apart: "pInData + sint NrSamples \<le> pMono \<or> pMono + uint NrFrames \<le> pInData"
    and differ: "\<forall>a. a < pMono \<or> pMono + uint NrFrames \<le> a \<longrightarrow> h' a = heap m1 a"
  shows "BypassVolume_path ref_env pInData NrFrames NrCh NrSamples pMono (m1\<lparr>heap := h'\<rparr>) =
           BypassVolume_path ref_env pInData NrFrames NrCh NrSamples pMono m1 \<and>
         snd (LVDBE_Process ref_env pInData pOutData NrFrames m) =
           Mix_paths ref_env pOutData NrFrames NrCh pScr pMono
             (BypassVolume_path ref_env pInData NrFrames NrCh NrSamples pMono
                (m1\<lparr>heap := h'\<rparr>))"
proof -
  note fe = frames_exact [OF c1 c2 f]
  let ?S = "sint NrCh * uint NrFrames"
  have S: "sint NrSamples = ?S"
    by (simp add: NrSamples_def NrCh_def fe)
  have NS: "uint NrFrames \<le> ?S"
    unfolding NrCh_def by (rule fe(4))
  have extent: "mix_extent NrFrames (ucast NrCh) = ?S"
    unfolding NrCh_def by (rule fe(5))
  have src_same: "h' (pInData + i) = heap m1 (pInData + i)" if "0 \<le> i" "i < ?S" for i
    using apart differ S that by auto
  have rest_same: "h' a = heap m1 a" if "a < pMono \<or> pMono + ?S \<le> a" for a
    using differ NS that by auto
  have mixer: "ref_LVC_MixSoft_Mc st pInData pMono NrFrames (ucast NrCh) h' =
        ref_LVC_MixSoft_Mc st pInData pMono NrFrames (ucast NrCh) (heap m1)" for st
  proof -
    have "(if pMono \<le> a \<and> a < pMono + ?S
           then saturate (Current st * h' (pInData + (a - pMono))) else h' a) =
          (if pMono \<le> a \<and> a < pMono + ?S
           then saturate (Current st * heap m1 (pInData + (a - pMono))) else heap m1 a)" for a
    proof (cases "pMono \<le> a \<and> a < pMono + ?S")
      case True
      then have "h' (pInData + (a - pMono)) = heap m1 (pInData + (a - pMono))"
        by (intro src_same) simp_all
      with True show ?thesis
        by simp
    next
      case False
      then have eq: "h' a = heap m1 a"
        by (intro rest_same) auto
      show ?thesis
        unfolding if_not_P [OF False] by (rule eq)
    qed
    then show ?thesis
      by (simp add: ref_LVC_MixSoft_Mc_def extent)
  qed
  have cleared: "memset_zero z pMono (memset_cells NrSamples) h' =
        memset_zero z pMono (memset_cells NrSamples) (heap m1)" for z :: int
  proof (rule ext)
    fix a
    have "0 \<le> sint NrSamples"
      using c1 by (simp add: S NrCh_def)
    then have "memset_cells NrSamples = ?S"
      by (simp add: memset_cells_nonneg S)
    then show "memset_zero z pMono (memset_cells NrSamples) h' a =
        memset_zero z pMono (memset_cells NrSamples) (heap m1) a"
      using rest_same [of a] by (auto simp add: memset_zero_def)
  qed
  have env: "LVC_MixSoft_Mc_D16C31_SAT ref_env = ref_LVC_MixSoft_Mc"
    by (simp add: ref_env_def)
  have same: "BypassVolume_path ref_env pInData NrFrames NrCh NrSamples pMono
             (m1\<lparr>heap := h'\<rparr>) =
           BypassVolume_path ref_env pInData NrFrames NrCh NrSamples pMono m1"
    by (simp add: BypassVolume_path_def call_LVC_MixSoft_Mc_def call_memset_def env mixer
        cleared log_call_def split_beta)
  have "snd (LVDBE_Process ref_env pInData pOutData NrFrames m) =
           Mix_paths ref_env pOutData NrFrames NrCh pScr pMono
             (BypassVolume_path ref_env pInData NrFrames NrCh NrSamples pMono m1)"
    by (simp only: LVDBE_Process_success [OF guard] snd_conv NrCh_def NrSamples_def
        pScr_def pMono_def m1_def)
  with same show ?thesis
    by simp
qed

theorem C7_mono_contents_do_not_leak_witness:
  "map (heap (DBE_path ref_env 0 2 2 4 1000 1004
     (example_machine LVDBE_OFF LVDBE_HPF_OFF 2 4
        \<lparr>Current = 1, Target = 0\<rparr> \<lparr>Current = 0, Target = 1\<rparr>))) [1004, 1005] = [24, 40] \<and>
   map (heap (Mix_paths ref_env 100 2 2 1000 1004
     (BypassVolume_path ref_env 0 2 2 4 1004
        ((DBE_path ref_env 0 2 2 4 1000 1004
            (example_machine LVDBE_OFF LVDBE_HPF_OFF 2 4
               \<lparr>Current = 1, Target = 0\<rparr> \<lparr>Current = 0, Target = 1\<rparr>))
         \<lparr>heap := write_block 1004 [99, 98]
            (heap (DBE_path ref_env 0 2 2 4 1000 1004
               (example_machine LVDBE_OFF LVDBE_HPF_OFF 2 4
                  \<lparr>Current = 1, Target = 0\<rparr> \<lparr>Current = 0, Target = 1\<rparr>)))\<rparr>))))
     [100, 101, 102, 103, 1004, 1005, 1006, 1007] = [29, 31, 49, 51, 10, 14, 18, 22] \<and>
   map (heap (snd (LVDBE_Process ref_env 0 100 2
     (example_machine LVDBE_OFF LVDBE_HPF_OFF 2 4
        \<lparr>Current = 1, Target = 0\<rparr> \<lparr>Current = 0, Target = 1\<rparr>))))
     [100, 101, 102, 103, 1004, 1005, 1006, 1007] = [29, 31, 49, 51, 10, 14, 18, 22]"
proof -
  let ?m = "example_machine LVDBE_OFF LVDBE_HPF_OFF 2 4
        \<lparr>Current = 1, Target = 0\<rparr> \<lparr>Current = 0, Target = 1\<rparr>"
  let ?m1 = "DBE_path ref_env 0 2 2 4 1000 1004 ?m"
  have inst: "inst ?m = example_instance LVDBE_OFF LVDBE_HPF_OFF 2 4
        \<lparr>Current = 1, Target = 0\<rparr> \<lparr>Current = 0, Target = 1\<rparr>"
    by (simp add: example_machine_def)
  have guard: "uint (2 :: LVM_UINT16) \<le> MaxBlockSize (Capabilities (inst ?m))"
    and c1: "1 \<le> sint (NrChannels (Params (inst ?m)))"
    and c2: "sint (NrChannels (Params (inst ?m))) < 2 ^ 15"
    and f: "uint (2 :: LVM_UINT16) \<le> 32767"
    by (simp_all add: inst example_instance_def)
  have apart: "(0 :: int) + sint (NrChannels (Params (inst ?m)) * ucast (2 :: LVM_UINT16)) \<le>
        pScratch (inst ?m) + sint (NrChannels (Params (inst ?m)) * ucast (2 :: LVM_UINT16)) \<or>
      pScratch (inst ?m) + sint (NrChannels (Params (inst ?m)) * ucast (2 :: LVM_UINT16)) +
        uint (2 :: LVM_UINT16) \<le> 0"
    by (simp add: inst example_instance_def)
  have differ: "\<forall>a. a < pScratch (inst ?m) +
          sint (NrChannels (Params (inst ?m)) * ucast (2 :: LVM_UINT16)) \<or>
        pScratch (inst ?m) + sint (NrChannels (Params (inst ?m)) * ucast (2 :: LVM_UINT16)) +
          uint (2 :: LVM_UINT16) \<le> a \<longrightarrow>
        write_block 1004 [99, 98] (heap ?m1) a =
        heap (DBE_path ref_env 0 2 (NrChannels (Params (inst ?m)))
               (NrChannels (Params (inst ?m)) * ucast (2 :: LVM_UINT16)) (pScratch (inst ?m))
               (pScratch (inst ?m) +
                  sint (NrChannels (Params (inst ?m)) * ucast (2 :: LVM_UINT16))) ?m) a"
    by (simp add: inst example_instance_def write_block_def)
  have run: "map (heap ?m1) [1004, 1005] = [24, 40]"
    "map (heap (Mix_paths ref_env 100 2 2 1000 1004
       (BypassVolume_path ref_env 0 2 2 4 1004
          (?m1\<lparr>heap := write_block 1004 [99, 98] (heap ?m1)\<rparr>))))
     [100, 101, 102, 103, 1004, 1005, 1006, 1007] = [29, 31, 49, 51, 10, 14, 18, 22]"
    "map (heap (snd (LVDBE_Process ref_env 0 100 2 ?m)))
     [100, 101, 102, 103, 1004, 1005, 1006, 1007] = [29, 31, 49, 51, 10, 14, 18, 22]"
    by code_simp+
  show ?thesis
    using C7_mono_contents_do_not_leak [OF guard c1 c2 f apart differ, of 100]
    by (simp (no_asm) only: run simp_thms)
qed

text \<open>
  C7 as stated fails for a call whose frame count exceeds 32767: one channel, 40000
  frames, a maximum block size of 40000, the operating mode OFF with stream 0 of the
  bypass mixer still on its way to its target, so that both paths are computed; the input
  block at address 100000, apart from the scratch buffer. The enhanced path leaves
  \<open>-82002\<close> in the first cell of the mono region (address 41000). The single-input mixer
  is handed the frame count 40000 as a signed 16-bit integer, which reads \<open>-25536\<close>,
  and has no sample to write, so after the call that cell of the bypass-volume region
  still holds \<open>-82002\<close>; in the run that differs only by holding 99 in that cell of the
  mono region it holds 99.
\<close>

theorem C7_mono_contents_show_in_bypass_volume_region:
  "uint (40000 :: LVM_UINT16) \<le> MaxBlockSize (Capabilities (inst
     (example_machine LVDBE_OFF LVDBE_HPF_OFF 1 40000
        \<lparr>Current = 1, Target = 0\<rparr> \<lparr>Current = 1, Target = 1\<rparr>))) \<and>
   DBE_active ref_env (inst
     (example_machine LVDBE_OFF LVDBE_HPF_OFF 1 40000
        \<lparr>Current = 1, Target = 0\<rparr> \<lparr>Current = 1, Target = 1\<rparr>)) \<and>
   BypassVolume_active ref_env (inst
     (example_machine LVDBE_OFF LVDBE_HPF_OFF 1 40000
        \<lparr>Current = 1, Target = 0\<rparr> \<lparr>Current = 1, Target = 1\<rparr>)) \<and>
   fst (LVDBE_Process ref_env 100000 200000 40000
     (example_machine LVDBE_OFF LVDBE_HPF_OFF 1 40000
        \<lparr>Current = 1, Target = 0\<rparr> \<lparr>Current = 1, Target = 1\<rparr>)) = LVDBE_SUCCESS \<and>
   sint (40000 :: LVM_INT16) = - 25536 \<and>
   heap (DBE_path ref_env 100000 40000 1 40000 1000 41000
     (example_machine LVDBE_OFF LVDBE_HPF_OFF 1 40000
        \<lparr>Current = 1, Target = 0\<rparr> \<lparr>Current = 1, Target = 1\<rparr>)) 41000 = - 82002 \<and>
   heap (snd (LVDBE_Process ref_env 100000 200000 40000
     (example_machine LVDBE_OFF LVDBE_HPF_OFF 1 40000
        \<lparr>Current = 1, Target = 0\<rparr> \<lparr>Current = 1, Target = 1\<rparr>))) 41000 = - 82002 \<and>
   heap (Mix_paths ref_env 200000 40000 1 1000 41000
     (BypassVolume_path ref_env 100000 40000 1 40000 41000
        ((DBE_path ref_env 100000 40000 1 40000 1000 41000
            (example_machine LVDBE_OFF LVDBE_HPF_OFF 1 40000
               \<lparr>Current = 1, Target = 0\<rparr> \<lparr>Current = 1, Target = 1\<rparr>))
         \<lparr>heap :=
            (heap (DBE_path ref_env 100000 40000 1 40000 1000 41000
               (example_machine LVDBE_OFF LVDBE_HPF_OFF 1 40000
                  \<lparr>Current = 1, Target = 0\<rparr> \<lparr>Current = 1, Target = 1\<rparr>)))
            (41000 := 99)\<rparr>))) 41000 = 99"
  by (simp add: run_defs)

subsection \<open>Settled states\<close>

lemma saturate_idem [simp]: "saturate (saturate x) = saturate x"
  by (simp add: saturate_def)

text \<open>
  C5 (as amended). Settled against the reference mixers, for a frame count of at most
  32767 (channel count from 1 to 32767; \<open>S = channels * frames\<close>): with the
  operating mode OFF and both streams of the bypass mixer settled at the gains of that
  mode (stream 0, of the enhanced path, at zero; stream 1, of the bypass path, at unity),
  the call succeeds, the enhanced path is not computed but zero-filled, and every sample
  of the output block is exactly the input sample times the current gain of the bypass
  volume, saturated. (The input sample is the one the single-input mixer reads: a cell of
  the input block that lies in the scratch region just zero-filled reads zero.)
\<close>

theorem C5_off_settled_output:
  fixes m :: "(int, nat \<times> nat, int, ref_stream) machine"
    and NrFrames :: LVM_UINT16
    and pInData pOutData :: addr
    and NrCh pScr S gain r
  defines "NrCh \<equiv> NrChannels (Params (inst m))"
    and "pScr \<equiv> pScratch (inst m)"
    and "S \<equiv> sint NrCh * uint NrFrames"
    and "gain \<equiv> Current (BypassVolume (pData (inst m)))"
    and "r \<equiv> snd (LVDBE_Process ref_env pInData pOutData NrFrames m)"
  assumes guard: "uint NrFrames \<le> MaxBlockSize (Capabilities (inst m))"
    and off: "OperatingMode (Params (inst m)) = LVDBE_OFF"
    and s0: "MixerStream0 (BypassMixer (pData (inst m))) = \<lparr>Current = 0, Target = 0\<rparr>"
    and s1: "MixerStream1 (BypassMixer (pData (inst m))) = \<lparr>Current = 1, Target = 1\<rparr>"
    and c1: "1 \<le> sint (NrChannels (Params (inst m)))"
    and c2: "sint (NrChannels (Params (inst m))) < 2 ^ 15"
    and f: "uint NrFrames \<le> 32767"
  shows "fst (LVDBE_Process ref_env pInData pOutData NrFrames m) = LVDBE_SUCCESS \<and>
         calls r =
           calls m @
           [Call_memset pScr (NrCh * ucast NrFrames),
            Call_LVC_MixSoft_Mc pInData (pScr + S) NrFrames (ucast NrCh),
            Call_LVC_MixSoft_2Mc pScr (pScr + S) pOutData NrFrames (ucast NrCh)] \<and>
         (\<forall>i. 0 \<le> i \<and> i < S \<longrightarrow>
            heap r (pOutData + i) =
              saturate (gain *
                (if pScr \<le> pInData + i \<and> pInData + i < pScr + S then 0
                 else heap m (pInData + i))))"
proof -
  note fe = frames_exact [OF c1 c2 f]
  have S0: "0 \<le> S"
    using c1 by (simp add: S_def NrCh_def)
  have NrSamples: "sint (NrCh * ucast NrFrames) = S"
    by (simp add: NrCh_def S_def fe)
  have cells: "memset_cells (NrCh * ucast NrFrames) = S"
    using S0 by (simp add: memset_cells_nonneg NrSamples)
  have extent: "mix_extent NrFrames (ucast NrCh) = S"
    unfolding NrCh_def S_def by (rule fe(5))
  have inactive: "\<not> DBE_active ref_env (inst m)"
    using off s0 by (simp add: DBE_active_def ref_env_def)
  have active: "BypassVolume_active ref_env (inst m)"
    using off by (simp add: BypassVolume_active_def)
  define hE where "hE = memset_zero 0 pScr S (heap m)"
  define hV where "hV = snd (ref_LVC_MixSoft_Mc (BypassVolume (pData (inst m)))
                               pInData (pScr + S) NrFrames (ucast NrCh) hE)"
  have "heap r =
          snd (LVC_MixSoft_2Mc_D16C31_SAT ref_env (BypassMixer (pData (inst m)))
                 pScr (pScr + S) pOutData NrFrames (ucast NrCh) hV)"
    unfolding r_def LVDBE_Process_result(1) [OF guard]
    using inactive active
    by (simp add: hV_def hE_def NrSamples [unfolded NrCh_def] cells [unfolded NrCh_def]
        NrCh_def pScr_def ref_env_def)
  then have out: "heap r =
          snd (ref_LVC_MixSoft_2Mc (BypassMixer (pData (inst m)))
                 pScr (pScr + S) pOutData NrFrames (ucast NrCh) hV)"
    by (simp add: ref_env_def)
  have sample: "heap r (pOutData + i) =
              saturate (gain *
                (if pScr \<le> pInData + i \<and> pInData + i < pScr + S then 0
                 else heap m (pInData + i)))"
    if i: "0 \<le> i" "i < S" for i
  proof -
    have "heap r (pOutData + i) = saturate (hV (pScr + S + i))"
      using i by (simp add: out ref_LVC_MixSoft_2Mc_def extent s0 s1)
    also have "hV (pScr + S + i) = saturate (gain * hE (pInData + i))"
      using i by (simp add: hV_def ref_LVC_MixSoft_Mc_def extent gain_def)
    also have "hE (pInData + i) =
        (if pScr \<le> pInData + i \<and> pInData + i < pScr + S then 0 else heap m (pInData + i))"
      by (simp add: hE_def memset_zero_def)
    finally show ?thesis
      by simp
  qed
  have "calls r =
           calls m @
           [Call_memset pScr (NrCh * ucast NrFrames),
            Call_LVC_MixSoft_Mc pInData (pScr + S) NrFrames (ucast NrCh),
            Call_LVC_MixSoft_2Mc pScr (pScr + S) pOutData NrFrames (ucast NrCh)]"
    unfolding r_def new_calls_LVDBE_Process [OF guard]
    using inactive active
    by (simp add: NrSamples [unfolded NrCh_def] NrCh_def pScr_def)
  moreover have "fst (LVDBE_Process ref_env pInData pOutData NrFrames m) = LVDBE_SUCCESS"
    by (simp add: LVDBE_Process_success [OF guard])
  ultimately show ?thesis
    using sample by blast
qed

theorem C5_off_settled_output_witness:
  "fst (LVDBE_Process ref_env 0 100 2
     (example_machine LVDBE_OFF LVDBE_HPF_ON 2 4
        \<lparr>Current = 0, Target = 0\<rparr> \<lparr>Current = 1, Target = 1\<rparr>)) = LVDBE_SUCCESS \<and>
   Current (BypassVolume (pData (inst
     (example_machine LVDBE_OFF LVDBE_HPF_ON 2 4
        \<lparr>Current = 0, Target = 0\<rparr> \<lparr>Current = 1, Target = 1\<rparr>)))) = 2 \<and>
   map (heap (example_machine LVDBE_OFF LVDBE_HPF_ON 2 4
        \<lparr>Current = 0, Target = 0\<rparr> \<lparr>Current = 1, Target = 1\<rparr>))
     [0, 1, 2, 3, 100, 101, 102, 103] = [5, 7, 9, 11, - 101, - 102, - 103, - 104] \<and>
   map (heap (snd (LVDBE_Process ref_env 0 100 2
     (example_machine LVDBE_OFF LVDBE_HPF_ON 2 4
        \<lparr>Current = 0, Target = 0\<rparr> \<lparr>Current = 1, Target = 1\<rparr>))))
     [100, 101, 102, 103] = [10, 14, 18, 22]"
proof -
  let ?m = "example_machine LVDBE_OFF LVDBE_HPF_ON 2 4
        \<lparr>Current = 0, Target = 0\<rparr> \<lparr>Current = 1, Target = 1\<rparr>"
  have inst: "inst ?m = example_instance LVDBE_OFF LVDBE_HPF_ON 2 4
        \<lparr>Current = 0, Target = 0\<rparr> \<lparr>Current = 1, Target = 1\<rparr>"
    by (simp add: example_machine_def)
  have guard: "uint (2 :: LVM_UINT16) \<le> MaxBlockSize (Capabilities (inst ?m))"
    and off: "OperatingMode (Params (inst ?m)) = LVDBE_OFF"
    and s0: "MixerStream0 (BypassMixer (pData (inst ?m))) = \<lparr>Current = 0, Target = 0\<rparr>"
    and s1: "MixerStream1 (BypassMixer (pData (inst ?m))) = \<lparr>Current = 1, Target = 1\<rparr>"
    and c1: "1 \<le> sint (NrChannels (Params (inst ?m)))"
    and c2: "sint (NrChannels (Params (inst ?m))) < 2 ^ 15"
    and f: "uint (2 :: LVM_UINT16) \<le> 32767"
    by (simp_all add: inst example_instance_def)
  have run: "fst (LVDBE_Process ref_env 0 100 2 ?m) = LVDBE_SUCCESS"
    "Current (BypassVolume (pData (inst ?m))) = 2"
    "map (heap ?m) [0, 1, 2, 3, 100, 101, 102, 103] =
       [5, 7, 9, 11, - 101, - 102, - 103, - 104]"
    "map (heap (snd (LVDBE_Process ref_env 0 100 2 ?m))) [100, 101, 102, 103] =
       [10, 14, 18, 22]"
    by code_simp+
  show ?thesis
    using C5_off_settled_output [OF guard off s0 s1 c1 c2 f, of 0 100]
    by (simp (no_asm) only: run simp_thms)
qed

text \<open>
  C5 as stated fails for a frame count within the maximum block size that exceeds 32767:
  one channel, 40000 frames, a maximum block size of 40000, the operating mode OFF, stream
  0 settled at zero and stream 1 at unity, the input block at address 100000 and the
  output block at address 200000. The call succeeds. The two mixers are handed the frame
  count 40000 as a signed 16-bit integer, which reads \<open>-25536\<close>, and write no sample:
  the first cell of the output block holds \<open>-200001\<close> after the call, as before, while
  the bypass-volume-adjusted first input sample is \<open>-32768\<close>.
\<close>

theorem C5_output_differs_from_bypass_volume_input:
  "uint (40000 :: LVM_UINT16) \<le> MaxBlockSize (Capabilities (inst
     (example_machine LVDBE_OFF LVDBE_HPF_OFF 1 40000
        \<lparr>Current = 0, Target = 0\<rparr> \<lparr>Current = 1, Target = 1\<rparr>))) \<and>
   OperatingMode (Params (inst
     (example_machine LVDBE_OFF LVDBE_HPF_OFF 1 40000
        \<lparr>Current = 0, Target = 0\<rparr> \<lparr>Current = 1, Target = 1\<rparr>))) = LVDBE_OFF \<and>
   BypassMixer (pData (inst
     (example_machine LVDBE_OFF LVDBE_HPF_OFF 1 40000
        \<lparr>Current = 0, Target = 0\<rparr> \<lparr>Current = 1, Target = 1\<rparr>))) =
     \<lparr>MixerStream0 = \<lparr>Current = 0, Target = 0\<rparr>,
      MixerStream1 = \<lparr>Current = 1, Target = 1\<rparr>\<rparr> \<and>
   fst (LVDBE_Process ref_env 100000 200000 40000
     (example_machine LVDBE_OFF LVDBE_HPF_OFF 1 40000
        \<lparr>Current = 0, Target = 0\<rparr> \<lparr>Current = 1, Target = 1\<rparr>)) = LVDBE_SUCCESS \<and>
   sint (40000 :: LVM_INT16) = - 25536 \<and>
   heap (example_machine LVDBE_OFF LVDBE_HPF_OFF 1 40000
        \<lparr>Current = 0, Target = 0\<rparr> \<lparr>Current = 1, Target = 1\<rparr>) 100000 = - 100001 \<and>
   saturate (Current (BypassVolume (pData (inst
     (example_machine LVDBE_OFF LVDBE_HPF_OFF 1 40000
        \<lparr>Current = 0, Target = 0\<rparr> \<lparr>Current = 1, Target = 1\<rparr>)))) * (- 100001)) = - 32768 \<and>
   heap (example_machine LVDBE_OFF LVDBE_HPF_OFF 1 40000
        \<lparr>Current = 0, Target = 0\<rparr> \<lparr>Current = 1, Target = 1\<rparr>) 200000 = - 200001 \<and>
   heap (snd (LVDBE_Process ref_env 100000 200000 40000
     (example_machine LVDBE_OFF LVDBE_HPF_OFF 1 40000
        \<lparr>Current = 0, Target = 0\<rparr> \<lparr>Current = 1, Target = 1\<rparr>))) 200000 = - 200001"
  by (simp add: run_defs)




end
